theory Spec2Isabelle
  imports Main "HOL-Library.AList"
begin

section \<open>Usage-quota blocking engine: the real-time controller and the daily reset\<close>

text \<open>
  A shallow embedding of
  \<^item> \<^verbatim>\<open>02. Source/Lambda Functions/bedrock-realtime-usage-controller-aws-20250923/lambda_function.py\<close>
    (the real-time usage controller: CloudTrail events and manual API operations), and
  \<^item> \<^verbatim>\<open>04. Testing/bedrock_daily_reset.py\<close> (the scheduled daily reset).

  The MySQL tables, the IAM inline policies and the outgoing notifications are fields of one
  record \<open>world\<close>; every function takes the world and returns its result with the new world.
  Every \<^verbatim>\<open>try/except\<close> of the source is a branch: which external call raises is read from
  \<open>fails\<close>, one flag per call site, fixed for the invocation. Log lines are not part of the
  state.
\<close>

subsection \<open>Time\<close>

text \<open>
  A Python \<^verbatim>\<open>datetime\<close> without time zone. The calendar date is kept as its proleptic
  ordinal (\<^verbatim>\<open>date.toordinal()\<close>), so \<^verbatim>\<open>+ timedelta(days=1)\<close> adds one to it.
  Python compares two such values field by field, most significant first.
\<close>

record naive_datetime =
  ordinal :: int
  hour :: nat
  minute :: nat
  second :: nat
  microsecond :: nat

text \<open>
  An aware \<^verbatim>\<open>datetime\<close> as pytz builds it: the wall-clock fields and the fixed UTC offset
  (seconds east of UTC) that was in force when the value was made.
\<close>

record aware_datetime =
  wall :: naive_datetime
  utcoffset :: int

definition naive_less :: "naive_datetime \<Rightarrow> naive_datetime \<Rightarrow> bool" where
  "naive_less a b \<longleftrightarrow>
     ordinal a < ordinal b \<or> (ordinal a = ordinal b \<and>
      (hour a < hour b \<or> (hour a = hour b \<and>
       (minute a < minute b \<or> (minute a = minute b \<and>
        (second a < second b \<or> (second a = second b \<and> microsecond a < microsecond b)))))))"

definition naive_le :: "naive_datetime \<Rightarrow> naive_datetime \<Rightarrow> bool" where
  "naive_le a b \<longleftrightarrow> naive_less a b \<or> a = b"

text \<open>Microseconds since ordinal 0, and the UTC instant of an aware value.\<close>

definition to_micros :: "naive_datetime \<Rightarrow> int" where
  "to_micros d =
     (((ordinal d * 24 + int (hour d)) * 60 + int (minute d)) * 60 + int (second d)) * 1000000
       + int (microsecond d)"

definition utc_micros :: "aware_datetime \<Rightarrow> int" where
  "utc_micros a = to_micros (wall a) - utcoffset a * 1000000"

text \<open>\<^verbatim>\<open>a >= b\<close> on aware datetimes compares the instants.\<close>

definition aware_ge :: "aware_datetime \<Rightarrow> aware_datetime \<Rightarrow> bool" where
  "aware_ge a b \<longleftrightarrow> utc_micros b \<le> utc_micros a"

text \<open>\<^verbatim>\<open>dt + timedelta(days=n)\<close>: wall-clock arithmetic, the tzinfo is kept as it is.
  \<^verbatim>\<open>timedelta(hours=24)\<close> is the same value as \<^verbatim>\<open>timedelta(days=1)\<close>.\<close>

definition add_days :: "aware_datetime \<Rightarrow> int \<Rightarrow> aware_datetime" where
  "add_days a n = a\<lparr>wall := (wall a)\<lparr>ordinal := ordinal (wall a) + n\<rparr>\<rparr>"

text \<open>\<^verbatim>\<open>dt.replace(hour=0, minute=0, second=0, microsecond=0)\<close>\<close>

definition replace_midnight :: "aware_datetime \<Rightarrow> aware_datetime" where
  "replace_midnight a =
     a\<lparr>wall := (wall a)\<lparr>hour := 0, minute := 0, second := 0, microsecond := 0\<rparr>\<rparr>"

text \<open>\<^verbatim>\<open>dt.strftime('%Y-%m-%d %H:%M:%S')\<close>: the wall-clock fields down to the second; the
  offset and the microseconds are not printed. This is the form of every DATETIME column.\<close>

definition strftime :: "aware_datetime \<Rightarrow> naive_datetime" where
  "strftime a = (wall a)\<lparr>microsecond := 0\<rparr>"

text \<open>The ranges of the time fields of a \<^verbatim>\<open>datetime\<close>.\<close>

definition valid_time :: "naive_datetime \<Rightarrow> bool" where
  "valid_time d \<longleftrightarrow> hour d < 24 \<and> minute d < 60 \<and> second d < 60 \<and> microsecond d < 1000000"

definition is_midnight :: "naive_datetime \<Rightarrow> bool" where
  "is_midnight d \<longleftrightarrow> hour d = 0 \<and> minute d = 0 \<and> second d = 0 \<and> microsecond d = 0"

subsection \<open>Tables, policies and notifications\<close>

type_synonym user_id = string

text \<open>Table \<^verbatim>\<open>user_limits\<close>.\<close>

record limits_row =
  team :: string
  person :: string
  daily_request_limit :: int
  monthly_request_limit :: int
  administrative_safe :: string
  limits_created_at :: "naive_datetime option"
  limits_updated_at :: "naive_datetime option"

text \<open>Table \<^verbatim>\<open>user_blocking_status\<close>: one row per user (the BlockRecord).\<close>

record blocking_row =
  is_blocked :: string
  blocked_reason :: "string option"
  blocked_at :: "naive_datetime option"
  blocked_until :: "naive_datetime option"
  requests_at_blocking :: "int option"
  last_request_at :: "naive_datetime option"
  last_reset_at :: "naive_datetime option"
  status_created_at :: "naive_datetime option"
  status_updated_at :: "naive_datetime option"

text \<open>Table \<^verbatim>\<open>blocking_audit_log\<close> (insert only). The column \<^verbatim>\<open>usage_percentage\<close> is a
  rounded floating-point quotient and is left out.\<close>

record audit_row =
  audit_user_id :: user_id
  operation_type :: string
  operation_reason :: "string option"
  performed_by :: string
  operation_timestamp :: naive_datetime
  daily_requests_at_operation :: "int option"
  daily_limit_at_operation :: "int option"
  iam_policy_updated :: "string option"
  email_sent :: "string option"
  audit_created_at :: naive_datetime

text \<open>Table \<^verbatim>\<open>bedrock_requests\<close>: one row per recorded usage event.\<close>

record request_row =
  req_user_id :: user_id
  req_team :: string
  req_person :: string
  model_id :: string
  request_id :: string
  source_ip :: string
  user_agent :: string
  aws_region :: string
  response_status :: string
  error_message :: "string option"
  processing_time_ms :: int
  request_timestamp :: naive_datetime
  req_created_at :: naive_datetime

text \<open>An IAM policy statement and document. \<^verbatim>\<open>stmt.get('Sid')\<close> is \<open>None\<close> for a statement
  without the key.\<close>

record statement =
  Sid :: "string option"
  Effect :: "string option"
  Action :: "string list"
  Resource :: string

record policy_document =
  Version :: string
  Statement :: "statement list"

text \<open>The usage dictionary \<^verbatim>\<open>usage_info\<close>. Its two percentages are floating-point quotients
  that are only printed in log lines and e-mail bodies; they are left out.\<close>

record usage_info =
  daily_requests_used :: int
  monthly_requests_used :: int
  daily_limit :: int
  monthly_limit :: int
  usage_administrative_safe :: bool

text \<open>Calls of \<^verbatim>\<open>iam.get_user_policy\<close> and \<^verbatim>\<open>iam.put_user_policy\<close>, in the order made.\<close>

datatype policy_call =
    GetUserPolicy user_id
  | PutUserPolicy user_id policy_document

text \<open>Payloads handed to the e-mail service Lambda, and messages handed to Gmail SMTP.\<close>

datatype email_payload =
    SendAdminBlockingEmail user_id string string usage_info
  | SendBlockingEmail user_id usage_info string
  | SendAdminUnblockingEmail user_id string string
  | SendUnblockingEmail user_id string
  | SendDailyResetEmail user_id string string int

datatype gmail_message =
    BlockingGmail string user_id "string option" usage_info naive_datetime
  | UnblockingGmail string user_id

record world =
  user_limits :: "(user_id \<times> limits_row) list"
  user_blocking_status :: "(user_id \<times> blocking_row) list"
  blocking_audit_log :: "audit_row list"
  bedrock_requests :: "request_row list"
  user_policies :: "user_id \<rightharpoonup> policy_document"
  user_tags :: "user_id \<Rightarrow> (string \<times> string) list"
  user_groups :: "user_id \<Rightarrow> string list"
  policy_calls :: "policy_call list"
  lambda_invocations :: "email_payload list"
  smtp_messages :: "gmail_message list"

subsection \<open>Environment of one invocation\<close>

text \<open>The call sites of external services. A site whose flag is set raises there.\<close>

datatype call_site =
    DbConnect
  | DbSelectStatus | DbSelectLimits | DbSelectUsage
  | DbUpsertBlock | DbInsertAuditBlock
  | DbUpdateUnblock | DbClearProtection | DbInsertAuditUnblock
  | DbEnsureUser | DbInsertRequest
  | DbSelectCurrentUsage
  | DbUpsertAdminBlock | DbInsertAuditAdminBlock
  | DbUpdateAdminUnblock | DbSetProtection | DbInsertAuditAdminUnblock
  | DbSelectUserStatus
  | DbSelectExpired | DbSelectAdminSafe
  | DbResetUnblock | DbResetClearSafe | DbResetAudit | DbRemoveAdminSafe
  | IamListTagsTeam | IamGetGroups | IamListTagsPerson | IamListTagsEmail
  | IamGetPolicyBlock | IamPutPolicyBlock | IamVerifyPolicyBlock
  | IamGetPolicyUnblock | IamPutPolicyUnblock
  | EmailLambdaInvoke | EmailLambdaNot200 | ResetEmailInvoke
  | SmtpSend

text \<open>
  \<^item> \<open>now\<close>: \<^verbatim>\<open>get_current_cet_time()\<close>, that is \<^verbatim>\<open>datetime.now(CET)\<close>. The clock reads of one
    invocation are taken at one instant.
  \<^item> \<open>curdate\<close>, \<open>month_start\<close>: the ordinals of MySQL's \<^verbatim>\<open>CURDATE()\<close> and of
    \<^verbatim>\<open>DATE_FORMAT(NOW(), '%Y-%m-01')\<close>.
  \<^item> \<open>cet_offset\<close>: the UTC offset pytz's Europe/Madrid gives a wall-clock time
    (\<^verbatim>\<open>CET.localize\<close>).
  \<^item> \<open>fromisoformat_cet\<close>: \<^verbatim>\<open>datetime.fromisoformat(s.replace('Z', '+00:00')).astimezone(CET)\<close>,
    \<open>None\<close> where it raises.
  \<^item> \<open>utc_to_cet\<close>: the conversion inside \<^verbatim>\<open>convert_utc_to_cet\<close>, \<open>None\<close> where it raises.
  \<^item> \<open>EMAIL_NOTIFICATIONS_ENABLED\<close>: the module constant read from the process environment.
\<close>

record env =
  now :: aware_datetime
  curdate :: int
  month_start :: int
  cet_offset :: "naive_datetime \<Rightarrow> int"
  fromisoformat_cet :: "string \<Rightarrow> aware_datetime option"
  utc_to_cet :: "string \<Rightarrow> naive_datetime option"
  EMAIL_NOTIFICATIONS_ENABLED :: bool
  fails :: "call_site \<Rightarrow> bool"

definition get_current_cet_time :: "env \<Rightarrow> aware_datetime" where
  "get_current_cet_time e = now e"

definition get_cet_timestamp_string :: "env \<Rightarrow> naive_datetime" where
  "get_cet_timestamp_string e = strftime (get_current_cet_time e)"

definition localize :: "env \<Rightarrow> naive_datetime \<Rightarrow> aware_datetime" where
  "localize e d = \<lparr>wall = d, utcoffset = cet_offset e d\<rparr>"

subsection \<open>Policy Synchronizer\<close>

definition DENY_STATEMENT_SID :: string where
  "DENY_STATEMENT_SID = ''DailyLimitBlock''"

definition deny_statement :: statement where
  "deny_statement =
     \<lparr>Sid = Some ''DailyLimitBlock'', Effect = Some ''Deny'',
      Action = [''bedrock:InvokeModel'', ''bedrock:InvokeModelWithResponseStream'',
                ''bedrock:Converse'', ''bedrock:ConverseStream''],
      Resource = ''*''\<rparr>"

text \<open>The allow statement of the policy that \<^verbatim>\<open>implement_iam_blocking\<close> creates when the
  user has none.\<close>

definition new_policy_allow :: statement where
  "new_policy_allow =
     \<lparr>Sid = Some ''BedrockAccess'', Effect = Some ''Allow'',
      Action = [''bedrock:InvokeModel'', ''bedrock:InvokeModelWithResponseStream'',
                ''bedrock:Converse'', ''bedrock:ConverseStream''],
      Resource = ''*''\<rparr>"

text \<open>The allow statement that \<^verbatim>\<open>implement_iam_unblocking\<close> appends when no statement with
  effect Allow is left.\<close>

definition default_allow :: statement where
  "default_allow =
     \<lparr>Sid = Some ''BedrockAccess'', Effect = Some ''Allow'',
      Action = [''bedrock:InvokeModel'', ''bedrock:InvokeModelWithResponseStream''],
      Resource = ''*''\<rparr>"

text \<open>\<^verbatim>\<open>[stmt for stmt in current_policy['Statement'] if stmt.get('Sid') != 'DailyLimitBlock']\<close>\<close>

definition strip_deny :: "statement list \<Rightarrow> statement list" where
  "strip_deny stmts = filter (\<lambda>stmt. Sid stmt \<noteq> Some ''DailyLimitBlock'') stmts"

text \<open>
  \<^verbatim>\<open>implement_iam_blocking(user_id)\<close>: read the inline policy (a missing one gives the new
  two-statement policy), drop every statement with the deny Sid, put the deny statement first,
  write, read back and look for the deny statement. Every exception ends in \<^verbatim>\<open>return False\<close>.
\<close>

definition implement_iam_blocking :: "env \<Rightarrow> user_id \<Rightarrow> world \<Rightarrow> bool \<times> world" where
  "implement_iam_blocking e uid w =
     (let w1 = w\<lparr>policy_calls := policy_calls w @ [GetUserPolicy uid]\<rparr> in
      if fails e IamGetPolicyBlock then (False, w1)
      else
        let current_policy =
              (case user_policies w1 uid of
                 Some p \<Rightarrow> p\<lparr>Statement := deny_statement # strip_deny (Statement p)\<rparr>
               | None \<Rightarrow> \<lparr>Version = ''2012-10-17'',
                           Statement = [deny_statement, new_policy_allow]\<rparr>);
            w2 = w1\<lparr>policy_calls := policy_calls w1 @ [PutUserPolicy uid current_policy]\<rparr>
        in
        if fails e IamPutPolicyBlock then (False, w2)
        else
          let w3 = w2\<lparr>user_policies := (user_policies w2)(uid \<mapsto> current_policy)\<rparr>;
              w4 = w3\<lparr>policy_calls := policy_calls w3 @ [GetUserPolicy uid]\<rparr>
          in
          if fails e IamVerifyPolicyBlock then (False, w4)
          else
            (case user_policies w4 uid of
               None \<Rightarrow> (False, w4)
             | Some applied_policy \<Rightarrow>
                 (filter (\<lambda>stmt. Sid stmt = Some ''DailyLimitBlock'') (Statement applied_policy) \<noteq> [],
                  w4)))"

text \<open>
  \<^verbatim>\<open>implement_iam_unblocking(user_id)\<close> (the same text in both files): a missing policy is
  success with nothing written; otherwise drop the deny statement, append \<open>default_allow\<close>
  when no statement has effect Allow, and write.
\<close>

definition implement_iam_unblocking :: "env \<Rightarrow> user_id \<Rightarrow> world \<Rightarrow> bool \<times> world" where
  "implement_iam_unblocking e uid w =
     (let w1 = w\<lparr>policy_calls := policy_calls w @ [GetUserPolicy uid]\<rparr> in
      if fails e IamGetPolicyUnblock then (False, w1)
      else
        (case user_policies w1 uid of
           None \<Rightarrow> (True, w1)
         | Some p \<Rightarrow>
             let stmts = strip_deny (Statement p);
                 has_allow = list_ex (\<lambda>stmt. Effect stmt = Some ''Allow'') stmts;
                 stmts' = (if \<not> has_allow then stmts @ [default_allow] else stmts);
                 current_policy = p\<lparr>Statement := stmts'\<rparr>;
                 w2 = w1\<lparr>policy_calls := policy_calls w1 @ [PutUserPolicy uid current_policy]\<rparr>
             in
             if fails e IamPutPolicyUnblock then (False, w2)
             else (True, w2\<lparr>user_policies := (user_policies w2)(uid \<mapsto> current_policy)\<rparr>)))"

subsection \<open>IAM tags\<close>

text \<open>\<^verbatim>\<open>str.lower()\<close> on ASCII letters; other characters are kept.\<close>

definition lower_char :: "char \<Rightarrow> char" where
  "lower_char c =
     (case map_of (zip ''ABCDEFGHIJKLMNOPQRSTUVWXYZ'' ''abcdefghijklmnopqrstuvwxyz'') c of
        Some l \<Rightarrow> l
      | None \<Rightarrow> c)"

definition str_lower :: "string \<Rightarrow> string" where
  "str_lower s = map lower_char s"

text \<open>The first tag whose lower-cased key is in the given list, as the \<^verbatim>\<open>for\<close> loops over
  \<^verbatim>\<open>response['Tags']\<close> return it.\<close>

definition find_tag :: "string list \<Rightarrow> (string \<times> string) list \<Rightarrow> string option" where
  "find_tag keys tags =
     (case filter (\<lambda>tag. str_lower (fst tag) \<in> set keys) tags of
        [] \<Rightarrow> None
      | tag # _ \<Rightarrow> Some (snd tag))"

text \<open>\<^verbatim>\<open>get_user_team\<close>: the Team tag, else the first group named \<^verbatim>\<open>yo_leo_...\<close>, else
  \<^verbatim>\<open>'unknown'\<close>; a failing tag call gives \<^verbatim>\<open>'unknown'\<close>, a failing group call is skipped.\<close>

definition get_user_team :: "env \<Rightarrow> world \<Rightarrow> user_id \<Rightarrow> string" where
  "get_user_team e w uid =
     (if fails e IamListTagsTeam then ''unknown''
      else
        (case find_tag [''team'', ''Team''] (user_tags w uid) of
           Some team_value \<Rightarrow> team_value
         | None \<Rightarrow>
             (if fails e IamGetGroups then ''unknown''
              else
                (case filter (\<lambda>g. take 7 g = ''yo_leo_'') (user_groups w uid) of
                   g # _ \<Rightarrow> g
                 | [] \<Rightarrow> ''unknown''))))"

definition get_user_person_tag :: "env \<Rightarrow> world \<Rightarrow> user_id \<Rightarrow> string" where
  "get_user_person_tag e w uid =
     (if fails e IamListTagsPerson then ''Unknown''
      else
        (case find_tag [''person'', ''Person''] (user_tags w uid) of
           Some person_value \<Rightarrow> person_value
         | None \<Rightarrow> ''Unknown''))"

definition get_user_email :: "env \<Rightarrow> world \<Rightarrow> user_id \<Rightarrow> string option" where
  "get_user_email e w uid =
     (if fails e IamListTagsEmail then None
      else find_tag [''email'', ''Email''] (user_tags w uid))"

subsection \<open>Notifier\<close>

text \<open>\<^verbatim>\<open>send_gmail_email\<close>: the message is handed to SMTP; any exception gives \<open>False\<close>.\<close>

definition send_gmail_email :: "env \<Rightarrow> gmail_message \<Rightarrow> world \<Rightarrow> bool \<times> world" where
  "send_gmail_email e msg w =
     (\<not> fails e SmtpSend, w\<lparr>smtp_messages := smtp_messages w @ [msg]\<rparr>)"

definition send_blocking_email_gmail ::
  "env \<Rightarrow> user_id \<Rightarrow> string option \<Rightarrow> usage_info \<Rightarrow> aware_datetime \<Rightarrow> world \<Rightarrow> bool \<times> world" where
  "send_blocking_email_gmail e uid block_reason usage blocked_until_dt w =
     (case get_user_email e w uid of
        None \<Rightarrow> (False, w)
      | Some user_email \<Rightarrow>
          if user_email = [] then (False, w)
          else send_gmail_email e
                 (BlockingGmail user_email uid block_reason usage (strftime blocked_until_dt)) w)"

definition send_unblocking_email_gmail :: "env \<Rightarrow> user_id \<Rightarrow> world \<Rightarrow> bool \<times> world" where
  "send_unblocking_email_gmail e uid w =
     (case get_user_email e w uid of
        None \<Rightarrow> (False, w)
      | Some user_email \<Rightarrow>
          if user_email = [] then (False, w)
          else send_gmail_email e (UnblockingGmail user_email uid) w)"

text \<open>\<^verbatim>\<open>send_enhanced_blocking_email\<close>: the e-mail service Lambda first; when the call raises
  or answers with a status other than 200, Gmail with \<^verbatim>\<open>now + 24h\<close> as the printed expiry.\<close>

definition send_enhanced_blocking_email ::
  "env \<Rightarrow> user_id \<Rightarrow> string \<Rightarrow> usage_info \<Rightarrow> string \<Rightarrow> world \<Rightarrow> bool \<times> world" where
  "send_enhanced_blocking_email e uid rsn usage by_whom w =
     (let email_payload =
            (if by_whom \<noteq> ''system'' then SendAdminBlockingEmail uid by_whom rsn usage
             else SendBlockingEmail uid usage rsn)
      in
      if EMAIL_NOTIFICATIONS_ENABLED e then
        (let w1 = w\<lparr>lambda_invocations := lambda_invocations w @ [email_payload]\<rparr> in
         if fails e EmailLambdaInvoke \<or> fails e EmailLambdaNot200 then
           send_blocking_email_gmail e uid (Some rsn) usage
             (add_days (get_current_cet_time e) 1) w1
         else (True, w1))
      else (True, w))"

definition send_enhanced_unblocking_email ::
  "env \<Rightarrow> user_id \<Rightarrow> string \<Rightarrow> string \<Rightarrow> world \<Rightarrow> bool \<times> world" where
  "send_enhanced_unblocking_email e uid rsn by_whom w =
     (let email_payload =
            (if by_whom \<noteq> ''system'' \<and> by_whom \<noteq> ''daily_reset''
             then SendAdminUnblockingEmail uid by_whom rsn
             else SendUnblockingEmail uid rsn)
      in
      if EMAIL_NOTIFICATIONS_ENABLED e then
        (let w1 = w\<lparr>lambda_invocations := lambda_invocations w @ [email_payload]\<rparr> in
         if fails e EmailLambdaInvoke \<or> fails e EmailLambdaNot200 then
           send_unblocking_email_gmail e uid w1
         else (True, w1))
      else (True, w))"

subsection \<open>SQL statements on the keyed tables\<close>

text \<open>\<^verbatim>\<open>UPDATE t SET ... WHERE user_id = %s\<close>: every row of that key is rewritten, no row is
  added.\<close>

definition sql_update :: "('r \<Rightarrow> 'r) \<Rightarrow> user_id \<Rightarrow> (user_id \<times> 'r) list \<Rightarrow> (user_id \<times> 'r) list" where
  "sql_update f uid tbl = map (\<lambda>(k, r). if k = uid then (k, f r) else (k, r)) tbl"

text \<open>\<^verbatim>\<open>INSERT INTO user_blocking_status ... ON DUPLICATE KEY UPDATE ...\<close>, the statement
  shared by \<^verbatim>\<open>execute_user_blocking\<close> and \<^verbatim>\<open>execute_admin_blocking\<close>.\<close>

definition upsert_block ::
  "user_id \<Rightarrow> string option \<Rightarrow> naive_datetime \<Rightarrow> naive_datetime option \<Rightarrow> int \<Rightarrow>
   (user_id \<times> blocking_row) list \<Rightarrow> (user_id \<times> blocking_row) list" where
  "upsert_block uid rsn ts until used tbl =
     (case map_of tbl uid of
        None \<Rightarrow>
          tbl @ [(uid, \<lparr>is_blocked = ''Y'', blocked_reason = rsn, blocked_at = Some ts,
                        blocked_until = until, requests_at_blocking = Some used,
                        last_request_at = Some ts, last_reset_at = None,
                        status_created_at = Some ts, status_updated_at = Some ts\<rparr>)]
      | Some _ \<Rightarrow>
          sql_update
            (\<lambda>r. r\<lparr>is_blocked := ''Y'', blocked_reason := rsn, blocked_at := Some ts,
                    blocked_until := until, requests_at_blocking := Some used,
                    last_request_at := Some ts, status_updated_at := Some ts\<rparr>)
            uid tbl)"

subsection \<open>Block state machine: automatic transitions\<close>

text \<open>
  \<^verbatim>\<open>execute_user_unblocking(connection, user_id)\<close> of the controller. Step 1 (the BlockRecord)
  is the only step whose failure returns \<open>False\<close>; steps 1.5 and 2 are logged when they fail;
  the results of steps 3 and 4 are logged and dropped.
\<close>

definition execute_user_unblocking :: "env \<Rightarrow> user_id \<Rightarrow> world \<Rightarrow> bool \<times> world" where
  "execute_user_unblocking e uid w =
     (let current_cet_string = get_cet_timestamp_string e in
      if fails e DbUpdateUnblock then (False, w)
      else
        let w1 = w\<lparr>user_blocking_status :=
                     sql_update
                       (\<lambda>r. r\<lparr>is_blocked := ''N'', blocked_reason := Some ''Automatic unblock'',
                               blocked_at := None, blocked_until := None,
                               last_request_at := Some current_cet_string,
                               last_reset_at := Some current_cet_string,
                               status_updated_at := Some current_cet_string\<rparr>)
                       uid (user_blocking_status w)\<rparr>;
            w2 = (if fails e DbClearProtection then w1
                  else w1\<lparr>user_limits :=
                            sql_update
                              (\<lambda>r. r\<lparr>administrative_safe := ''N'',
                                      limits_updated_at := Some current_cet_string\<rparr>)
                              uid (user_limits w1)\<rparr>);
            w3 = (if fails e DbInsertAuditUnblock then w2
                  else w2\<lparr>blocking_audit_log := blocking_audit_log w2 @
                            [\<lparr>audit_user_id = uid, operation_type = ''UNBLOCK'',
                              operation_reason = Some ''Automatic unblock'',
                              performed_by = ''system'',
                              operation_timestamp = current_cet_string,
                              daily_requests_at_operation = None,
                              daily_limit_at_operation = None,
                              iam_policy_updated = None, email_sent = None,
                              audit_created_at = current_cet_string\<rparr>]\<rparr>);
            (iam_ok, w4) = implement_iam_unblocking e uid w3;
            (email_ok, w5) = send_enhanced_unblocking_email e uid ''Automatic unblock'' ''system'' w4
        in (True, w5))"

text \<open>
  \<^verbatim>\<open>check_user_blocking_status(connection, user_id)\<close>. pymysql returns the DATETIME column
  \<^verbatim>\<open>blocked_until\<close> as a naive datetime, which the source localizes to CET before comparing.
\<close>

definition check_user_blocking_status ::
  "env \<Rightarrow> user_id \<Rightarrow> world \<Rightarrow> (bool \<times> string option) \<times> world" where
  "check_user_blocking_status e uid w =
     (if fails e DbSelectStatus then ((False, None), w)
      else
        (case map_of (user_blocking_status w) uid of
           None \<Rightarrow> ((False, None), w)
         | Some result \<Rightarrow>
             if is_blocked result \<noteq> ''Y'' then ((False, None), w)
             else
               (case blocked_until result of
                  None \<Rightarrow> ((True, blocked_reason result), w)
                | Some until \<Rightarrow>
                    if aware_ge (get_current_cet_time e) (localize e until) then
                      (let (success, w') = execute_user_unblocking e uid w in
                       if success then ((False, Some ''expired''), w')
                       else ((True, blocked_reason result), w'))
                    else ((True, blocked_reason result), w))))"

subsection \<open>Usage evaluator\<close>

text \<open>The two \<^verbatim>\<open>COUNT(*)\<close> queries on \<^verbatim>\<open>bedrock_requests\<close>.\<close>

definition count_daily :: "env \<Rightarrow> world \<Rightarrow> user_id \<Rightarrow> int" where
  "count_daily e w uid =
     int (length (filter (\<lambda>r. req_user_id r = uid \<and> ordinal (request_timestamp r) = curdate e)
                         (bedrock_requests w)))"

definition count_monthly :: "env \<Rightarrow> world \<Rightarrow> user_id \<Rightarrow> int" where
  "count_monthly e w uid =
     int (length (filter (\<lambda>r. req_user_id r = uid \<and> month_start e \<le> ordinal (request_timestamp r))
                         (bedrock_requests w)))"

text \<open>
  \<^verbatim>\<open>check_user_limits_with_protection(connection, user_id)\<close> returns
  \<^verbatim>\<open>(should_block, block_reason, usage_info)\<close>; the empty dictionary of the \<^verbatim>\<open>except\<close> branch is
  \<open>None\<close>. The function only reads.
\<close>

definition check_user_limits_with_protection ::
  "env \<Rightarrow> user_id \<Rightarrow> world \<Rightarrow> bool \<times> string option \<times> usage_info option" where
  "check_user_limits_with_protection e uid w =
     (if fails e DbSelectLimits then (False, None, None)
      else
        let (dlimit, mlimit, admin_safe) =
              (case map_of (user_limits w) uid of
                 None \<Rightarrow> (350, 5000, ''N'')
               | Some limits_result \<Rightarrow>
                   (daily_request_limit limits_result, monthly_request_limit limits_result,
                    administrative_safe limits_result))
        in
        if admin_safe = ''Y'' then
          (False, None,
           Some \<lparr>daily_requests_used = 0, monthly_requests_used = 0, daily_limit = dlimit,
                 monthly_limit = mlimit, usage_administrative_safe = True\<rparr>)
        else if fails e DbSelectUsage then (False, None, None)
        else
          let dused = count_daily e w uid;
              mused = count_monthly e w uid;
              (should_block, block_reason) =
                (if dlimit \<le> dused then (True, Some ''Daily limit exceeded'')
                 else if mlimit \<le> mused then (True, Some ''Monthly limit exceeded'')
                 else (False, None))
          in (should_block, block_reason,
              Some \<lparr>daily_requests_used = dused, monthly_requests_used = mused,
                    daily_limit = dlimit, monthly_limit = mlimit,
                    usage_administrative_safe = False\<rparr>))"

text \<open>
  \<^verbatim>\<open>execute_user_blocking(connection, user_id, block_reason, usage_info)\<close>. An empty
  \<^verbatim>\<open>usage_info\<close> (\<open>None\<close>) raises KeyError inside step 1. The function returns the result of
  the IAM step.
\<close>

definition execute_user_blocking ::
  "env \<Rightarrow> user_id \<Rightarrow> string option \<Rightarrow> usage_info option \<Rightarrow> world \<Rightarrow> bool \<times> world" where
  "execute_user_blocking e uid block_reason usage w =
     (let current_cet_time = get_current_cet_time e;
          current_cet_string = get_cet_timestamp_string e;
          blocked_until_cet = replace_midnight (add_days current_cet_time 1);
          blocked_until_string = strftime blocked_until_cet
      in
      case usage of
        None \<Rightarrow> (False, w)
      | Some u \<Rightarrow>
          if fails e DbUpsertBlock then (False, w)
          else
            let w1 = w\<lparr>user_blocking_status :=
                         upsert_block uid block_reason current_cet_string
                           (Some blocked_until_string) (daily_requests_used u)
                           (user_blocking_status w)\<rparr>;
                (iam_success, w2) = implement_iam_blocking e uid w1;
                (email_success, w3) =
                  send_blocking_email_gmail e uid block_reason u blocked_until_cet w2;
                w4 = (if fails e DbInsertAuditBlock then w3
                      else w3\<lparr>blocking_audit_log := blocking_audit_log w3 @
                                [\<lparr>audit_user_id = uid, operation_type = ''BLOCK'',
                                  operation_reason = block_reason, performed_by = ''system'',
                                  operation_timestamp = current_cet_string,
                                  daily_requests_at_operation = Some (daily_requests_used u),
                                  daily_limit_at_operation = Some (daily_limit u),
                                  iam_policy_updated = Some (if iam_success then ''Y'' else ''N''),
                                  email_sent = Some (if email_success then ''Y'' else ''N''),
                                  audit_created_at = current_cet_string\<rparr>]\<rparr>)
            in (iam_success, w4))"

subsection \<open>Request gateway: usage events\<close>

text \<open>
  \<^verbatim>\<open>extract_user_from_arn\<close> searches the ARN with two regular expressions,
  \<^verbatim>\<open>arn:aws:iam::\d+:user/(.+)\<close> and \<^verbatim>\<open>arn:aws:sts::\d+:assumed-role/[^/]+/(.+)\<close>.
  \<^verbatim>\<open>re.search\<close> takes the leftmost position where the pattern matches; \<^verbatim>\<open>\d\<close> is read as an
  ASCII digit and \<^verbatim>\<open>.\<close> as any character but the line feed.
\<close>

definition is_digit :: "char \<Rightarrow> bool" where
  "is_digit c \<longleftrightarrow> c \<in> set ''0123456789''"

definition dot_plus :: "string \<Rightarrow> string option" where
  "dot_plus s = (let g = takeWhile (\<lambda>c. c \<noteq> CHR 0x0A) s in if g = [] then None else Some g)"

definition match_iam_user :: "string \<Rightarrow> string option" where
  "match_iam_user s =
     (if take 13 s = ''arn:aws:iam::'' then
        (let r = drop 13 s; r' = dropWhile is_digit r in
         if takeWhile is_digit r \<noteq> [] \<and> take 6 r' = '':user/'' then dot_plus (drop 6 r')
         else None)
      else None)"

definition match_assumed_role :: "string \<Rightarrow> string option" where
  "match_assumed_role s =
     (if take 13 s = ''arn:aws:sts::'' then
        (let r = drop 13 s; r' = dropWhile is_digit r in
         if takeWhile is_digit r \<noteq> [] \<and> take 14 r' = '':assumed-role/'' then
           (let q = drop 14 r'; q' = dropWhile (\<lambda>c. c \<noteq> CHR ''/'') q in
            if takeWhile (\<lambda>c. c \<noteq> CHR ''/'') q \<noteq> [] \<and> take 1 q' = ''/'' then dot_plus (drop 1 q')
            else None)
         else None)
      else None)"

fun re_search :: "(string \<Rightarrow> string option) \<Rightarrow> string \<Rightarrow> string option" where
  "re_search m [] = m []"
| "re_search m (c # cs) = (case m (c # cs) of Some g \<Rightarrow> Some g | None \<Rightarrow> re_search m cs)"

definition extract_user_from_arn :: "string \<Rightarrow> string option" where
  "extract_user_from_arn user_arn =
     (if user_arn = [] then None
      else
        (case re_search match_iam_user user_arn of
           Some g \<Rightarrow> Some g
         | None \<Rightarrow> re_search match_assumed_role user_arn))"

text \<open>
  One CloudTrail record, with the defaults of the \<^verbatim>\<open>.get\<close> calls applied: \<open>arn\<close> is
  \<^verbatim>\<open>userIdentity.arn\<close>; \<open>requestParameters\<close> is \<open>None\<close> for a missing or null value and
  otherwise holds \<^verbatim>\<open>modelId\<close> (empty when the key is absent).
\<close>

record detail =
  arn :: string
  eventName :: string
  requestParameters :: "string option"
  sourceIPAddress :: string
  userAgent :: string
  requestID :: string
  eventTime :: string
  awsRegion :: string
  responseTime :: "int option"
  errorCode :: "string option"
  errorMessage :: "string option"

text \<open>The fields of \<^verbatim>\<open>request_data\<close> that \<^verbatim>\<open>log_bedrock_request_cet\<close> stores. The model
  name and the request type are computed by \<^verbatim>\<open>parse_bedrock_event\<close> and never read.\<close>

record request_data =
  rd_user_id :: user_id
  rd_model_id :: string
  rd_region :: string
  rd_source_ip :: string
  rd_user_agent :: string
  rd_request_id :: string
  rd_response_time_ms :: int
  rd_status_code :: nat
  rd_error_message :: "string option"
  rd_cet_timestamp :: naive_datetime

definition convert_utc_to_cet :: "env \<Rightarrow> string \<Rightarrow> naive_datetime" where
  "convert_utc_to_cet e utc_timestamp_str =
     (case utc_to_cet e utc_timestamp_str of
        Some t \<Rightarrow> t
      | None \<Rightarrow> get_cet_timestamp_string e)"

definition parse_bedrock_event :: "env \<Rightarrow> detail \<Rightarrow> request_data option" where
  "parse_bedrock_event e d =
     (case extract_user_from_arn (arn d) of
        None \<Rightarrow> None
      | Some uid \<Rightarrow>
          (case requestParameters d of
             None \<Rightarrow> None
           | Some mid \<Rightarrow>
               if mid = [] then None
               else
                 Some \<lparr>rd_user_id = uid, rd_model_id = mid, rd_region = awsRegion d,
                       rd_source_ip = sourceIPAddress d, rd_user_agent = userAgent d,
                       rd_request_id = requestID d,
                       rd_response_time_ms = (case responseTime d of None \<Rightarrow> 0 | Some t \<Rightarrow> t),
                       rd_status_code =
                         (if errorCode d \<noteq> None \<and> errorCode d \<noteq> Some [] then 400 else 200),
                       rd_error_message =
                         (if errorCode d \<noteq> None \<and> errorCode d \<noteq> Some [] then
                            (case errorMessage d of None \<Rightarrow> Some ''Unknown error'' | Some m \<Rightarrow> Some m)
                          else None),
                       rd_cet_timestamp = convert_utc_to_cet e (eventTime d)\<rparr>))"

definition log_bedrock_request_cet ::
  "env \<Rightarrow> request_data \<Rightarrow> string \<Rightarrow> string \<Rightarrow> world \<Rightarrow> world" where
  "log_bedrock_request_cet e rd tm ps w =
     (if fails e DbInsertRequest then w
      else
        w\<lparr>bedrock_requests := bedrock_requests w @
            [\<lparr>req_user_id = rd_user_id rd, req_team = tm, req_person = ps,
              model_id = rd_model_id rd, request_id = rd_request_id rd,
              source_ip = rd_source_ip rd,
              user_agent = (if rd_user_agent rd \<noteq> [] then take 1000 (rd_user_agent rd)
                            else ''unknown''),
              aws_region = rd_region rd,
              response_status = (if rd_status_code rd = 200 then ''success'' else ''error''),
              error_message = rd_error_message rd,
              processing_time_ms = rd_response_time_ms rd,
              request_timestamp = rd_cet_timestamp rd,
              req_created_at = get_cet_timestamp_string e\<rparr>]\<rparr>)"

definition ensure_user_exists :: "env \<Rightarrow> user_id \<Rightarrow> string \<Rightarrow> string \<Rightarrow> world \<Rightarrow> world" where
  "ensure_user_exists e uid tm ps w =
     (if fails e DbEnsureUser then w
      else
        (case map_of (user_limits w) uid of
           Some _ \<Rightarrow> w
         | None \<Rightarrow>
             w\<lparr>user_limits := user_limits w @
                 [(uid, \<lparr>team = tm, person = ps, daily_request_limit = 350,
                         monthly_request_limit = 5000, administrative_safe = ''N'',
                         limits_created_at = Some (get_cet_timestamp_string e),
                         limits_updated_at = None\<rparr>)]\<rparr>))"

record counters =
  processed_requests :: nat
  blocked_requests :: nat
  unblocked_requests :: nat

text \<open>
  The body of the \<^verbatim>\<open>for i, detail in enumerate(events_to_process)\<close> loop of
  \<^verbatim>\<open>handle_cloudtrail_event\<close>; every \<^verbatim>\<open>continue\<close> returns the state reached so far.
\<close>

definition process_detail :: "env \<Rightarrow> detail \<Rightarrow> counters \<times> world \<Rightarrow> counters \<times> world" where
  "process_detail e d cw =
     (let (c, w) = cw in
      case extract_user_from_arn (arn d) of
        None \<Rightarrow> (c, w)
      | Some uid \<Rightarrow>
          let tm = get_user_team e w uid;
              ps = get_user_person_tag e w uid
          in
          if tm = ''unknown'' \<and> ps = ''Unknown'' then (c, w)
          else
            let w1 = ensure_user_exists e uid tm ps w;
                ((blocked, block_reason), w2) = check_user_blocking_status e uid w1;
                c1 = (if block_reason = Some ''expired''
                      then c\<lparr>unblocked_requests := unblocked_requests c + 1\<rparr> else c)
            in
            if block_reason \<noteq> Some ''expired'' \<and> blocked then (c1, w2)
            else
              (case parse_bedrock_event e d of
                 None \<Rightarrow> (c1, w2)
               | Some rd \<Rightarrow>
                   let (should_block, new_block_reason, usage) =
                         check_user_limits_with_protection e uid w2
                   in
                   if should_block then
                     (let (blocking_success, w3) =
                            execute_user_blocking e uid new_block_reason usage w2
                      in (c1\<lparr>blocked_requests := blocked_requests c1 + 1\<rparr>, w3))
                   else
                     (c1\<lparr>processed_requests := processed_requests c1 + 1\<rparr>,
                      log_bedrock_request_cet e rd tm ps w2)))"

datatype api_error = MissingParameters | InvalidAction string | InternalError | DecodeError

datatype response_body =
    ErrorBody api_error
  | BlockBody string user_id string naive_datetime
  | UnblockBody string user_id string naive_datetime
  | StatusBody user_id bool "string option" "naive_datetime option" "naive_datetime option"
      string "string option" bool
  | SummaryBody counters

record response =
  statusCode :: nat
  body :: response_body

text \<open>
  \<^verbatim>\<open>handle_cloudtrail_event\<close>. The input is the list \<^verbatim>\<open>events_to_process\<close> after decoding
  (\<open>None\<close> when the CloudWatch Logs payload cannot be decoded).
\<close>

definition handle_cloudtrail_event :: "env \<Rightarrow> detail list option \<Rightarrow> world \<Rightarrow> response \<times> world" where
  "handle_cloudtrail_event e events_to_process w =
     (if fails e DbConnect then (\<lparr>statusCode = 500, body = ErrorBody InternalError\<rparr>, w)
      else
        (case events_to_process of
           None \<Rightarrow> (\<lparr>statusCode = 500, body = ErrorBody DecodeError\<rparr>, w)
         | Some ds \<Rightarrow>
             let (c, w') =
                   foldl (\<lambda>cw d. process_detail e d cw)
                     (\<lparr>processed_requests = 0, blocked_requests = 0, unblocked_requests = 0\<rparr>, w) ds
             in (\<lparr>statusCode = 200, body = SummaryBody c\<rparr>, w')))"

subsection \<open>Request gateway: administrative commands\<close>

definition get_user_current_usage :: "env \<Rightarrow> user_id \<Rightarrow> world \<Rightarrow> usage_info" where
  "get_user_current_usage e uid w =
     (if fails e DbSelectCurrentUsage then
        \<lparr>daily_requests_used = 0, monthly_requests_used = 0, daily_limit = 350,
         monthly_limit = 5000, usage_administrative_safe = False\<rparr>
      else
        let (dlimit, mlimit, admin_safe) =
              (case map_of (user_limits w) uid of
                 None \<Rightarrow> (350, 5000, ''N'')
               | Some limits_result \<Rightarrow>
                   (daily_request_limit limits_result, monthly_request_limit limits_result,
                    administrative_safe limits_result))
        in \<lparr>daily_requests_used = count_daily e w uid,
             monthly_requests_used = count_monthly e w uid,
             daily_limit = dlimit, monthly_limit = mlimit,
             usage_administrative_safe = (admin_safe = ''Y'')\<rparr>)"

text \<open>
  \<^verbatim>\<open>execute_admin_blocking(connection, user_id, reason, performed_by, usage_info, expires_at)\<close>.
  The expiry: a non-empty \<^verbatim>\<open>expires_at\<close> other than \<^verbatim>\<open>'Indefinite'\<close> is parsed, and when parsing
  raises the source logs "using 24-hour default" and takes \<^verbatim>\<open>now + 24h\<close>; \<^verbatim>\<open>'Indefinite'\<close>
  stores NULL; a missing or empty value takes \<^verbatim>\<open>now + 24h\<close>. There is no look at the current
  BlockRecord. The two statements are in one \<^verbatim>\<open>try\<close>: the first that raises returns \<open>False\<close>.
\<close>

definition admin_blocked_until :: "env \<Rightarrow> string option \<Rightarrow> naive_datetime option" where
  "admin_blocked_until e expires =
     (if expires \<noteq> None \<and> expires \<noteq> Some [] \<and> expires \<noteq> Some ''Indefinite'' then
        (case fromisoformat_cet e (the expires) of
           Some blocked_until_cet \<Rightarrow> Some (strftime blocked_until_cet)
         | None \<Rightarrow> Some (strftime (add_days (get_current_cet_time e) 1)))
      else if expires = Some ''Indefinite'' then None
      else Some (strftime (add_days (get_current_cet_time e) 1)))"

definition execute_admin_blocking ::
  "env \<Rightarrow> user_id \<Rightarrow> string \<Rightarrow> string \<Rightarrow> usage_info \<Rightarrow> string option \<Rightarrow> world \<Rightarrow> bool \<times> world" where
  "execute_admin_blocking e uid rsn by_whom usage expires w =
     (let current_cet_string = get_cet_timestamp_string e;
          blocked_until_string = admin_blocked_until e expires
      in
      if fails e DbUpsertAdminBlock then (False, w)
      else
        let w1 = w\<lparr>user_blocking_status :=
                     upsert_block uid (Some rsn) current_cet_string blocked_until_string
                       (daily_requests_used usage) (user_blocking_status w)\<rparr>
        in
        if fails e DbInsertAuditAdminBlock then (False, w1)
        else
          let w2 = w1\<lparr>blocking_audit_log := blocking_audit_log w1 @
                       [\<lparr>audit_user_id = uid, operation_type = ''BLOCK'',
                         operation_reason = Some rsn, performed_by = by_whom,
                         operation_timestamp = current_cet_string,
                         daily_requests_at_operation = None, daily_limit_at_operation = None,
                         iam_policy_updated = None, email_sent = None,
                         audit_created_at = current_cet_string\<rparr>]\<rparr>;
              (iam_ok, w3) = implement_iam_blocking e uid w2;
              (email_ok, w4) = send_enhanced_blocking_email e uid rsn usage by_whom w3
          in (True, w4))"

text \<open>\<^verbatim>\<open>execute_admin_unblocking(connection, user_id, reason, performed_by)\<close>.\<close>

definition execute_admin_unblocking ::
  "env \<Rightarrow> user_id \<Rightarrow> string \<Rightarrow> string \<Rightarrow> world \<Rightarrow> bool \<times> world" where
  "execute_admin_unblocking e uid rsn by_whom w =
     (let current_cet_string = get_cet_timestamp_string e in
      if fails e DbUpdateAdminUnblock then (False, w)
      else
        let w1 = w\<lparr>user_blocking_status :=
                     sql_update
                       (\<lambda>r. r\<lparr>is_blocked := ''N'', blocked_reason := Some rsn,
                               blocked_at := None, blocked_until := None,
                               status_updated_at := Some current_cet_string\<rparr>)
                       uid (user_blocking_status w)\<rparr>;
            protection_success = \<not> fails e DbSetProtection;
            w2 = (if fails e DbSetProtection then w1
                  else
                    (case map_of (user_limits w1) uid of
                       None \<Rightarrow>
                         w1\<lparr>user_limits := user_limits w1 @
                              [(uid, \<lparr>team = ''unknown'', person = ''Unknown'',
                                      daily_request_limit = 350, monthly_request_limit = 5000,
                                      administrative_safe = ''Y'',
                                      limits_created_at = Some current_cet_string,
                                      limits_updated_at = None\<rparr>)]\<rparr>
                     | Some _ \<Rightarrow>
                         w1\<lparr>user_limits :=
                              sql_update
                                (\<lambda>r. r\<lparr>administrative_safe := ''Y'',
                                        limits_updated_at := Some current_cet_string\<rparr>)
                                uid (user_limits w1)\<rparr>));
            w3 = (if fails e DbInsertAuditAdminUnblock then w2
                  else w2\<lparr>blocking_audit_log := blocking_audit_log w2 @
                            [\<lparr>audit_user_id = uid, operation_type = ''UNBLOCK'',
                              operation_reason = Some rsn, performed_by = by_whom,
                              operation_timestamp = current_cet_string,
                              daily_requests_at_operation = None,
                              daily_limit_at_operation = None,
                              iam_policy_updated = None, email_sent = None,
                              audit_created_at = current_cet_string\<rparr>]\<rparr>);
            (iam_success, w4) = implement_iam_unblocking e uid w3;
            (email_success, w5) = send_enhanced_unblocking_email e uid rsn by_whom w4
        in (protection_success, w5))"

text \<open>
  The administrative command. \<open>ev_duration\<close> is the \<^verbatim>\<open>duration\<close> key the dashboard sends;
  no function of the controller reads it.
\<close>

record api_event =
  ev_action :: "string option"
  ev_user_id :: "string option"
  ev_reason :: "string option"
  ev_performed_by :: "string option"
  ev_expires_at :: "string option"
  ev_duration :: "string option"

definition get_default :: "'a option \<Rightarrow> 'a \<Rightarrow> 'a" where
  "get_default v d = (case v of None \<Rightarrow> d | Some x \<Rightarrow> x)"

definition manual_block_user :: "env \<Rightarrow> user_id \<Rightarrow> api_event \<Rightarrow> world \<Rightarrow> response \<times> world" where
  "manual_block_user e uid ev w =
     (let rsn = get_default (ev_reason ev) ''Manual admin block'';
          by_whom = get_default (ev_performed_by ev) ''admin'';
          expires = ev_expires_at ev
      in
      if fails e DbConnect then (\<lparr>statusCode = 500, body = ErrorBody InternalError\<rparr>, w)
      else
        let usage = get_user_current_usage e uid w;
            (success, w') = execute_admin_blocking e uid rsn by_whom usage expires w
        in (\<lparr>statusCode = (if success then 200 else 500),
             body = BlockBody (if success then ''User '' @ uid @ '' blocked successfully''
                               else ''Blocking failed'')
                      uid by_whom (get_cet_timestamp_string e)\<rparr>, w'))"

definition manual_unblock_user :: "env \<Rightarrow> user_id \<Rightarrow> api_event \<Rightarrow> world \<Rightarrow> response \<times> world" where
  "manual_unblock_user e uid ev w =
     (let rsn = get_default (ev_reason ev) ''Manual admin unblock'';
          by_whom = get_default (ev_performed_by ev) ''admin''
      in
      if fails e DbConnect then (\<lparr>statusCode = 500, body = ErrorBody InternalError\<rparr>, w)
      else
        let (success, w') = execute_admin_unblocking e uid rsn by_whom w
        in (\<lparr>statusCode = (if success then 200 else 500),
             body = UnblockBody (if success then ''User '' @ uid @ '' unblocked successfully''
                                 else ''Unblocking failed'')
                      uid by_whom (get_cet_timestamp_string e)\<rparr>, w'))"

text \<open>\<^verbatim>\<open>check_user_status\<close>: reads the two rows and reports; a block that ends at
  \<^verbatim>\<open>00:00:00\<close> is reported as automatic.\<close>

definition check_user_status :: "env \<Rightarrow> user_id \<Rightarrow> world \<Rightarrow> response \<times> world" where
  "check_user_status e uid w =
     (if fails e DbConnect \<or> fails e DbSelectUserStatus then
        (\<lparr>statusCode = 500, body = ErrorBody InternalError\<rparr>, w)
      else
        let status_result = map_of (user_blocking_status w) uid;
            limits_result = map_of (user_limits w) uid;
            (block_type, by_whom) =
              (case status_result of
                 None \<Rightarrow> (''None'', None)
               | Some r \<Rightarrow>
                   if is_blocked r = ''Y'' then
                     (case blocked_until r of
                        Some until \<Rightarrow>
                          if hour until = 0 \<and> minute until = 0 \<and> second until = 0
                          then (''AUTO'', Some ''system'')
                          else (''Manual'', Some ''dashboard_admin'')
                      | None \<Rightarrow> (''Manual'', Some ''dashboard_admin''))
                   else (''None'', None))
        in (\<lparr>statusCode = 200,
             body = StatusBody uid
                      (case status_result of None \<Rightarrow> False | Some r \<Rightarrow> is_blocked r = ''Y'')
                      (case status_result of None \<Rightarrow> None | Some r \<Rightarrow> blocked_reason r)
                      (case status_result of None \<Rightarrow> None | Some r \<Rightarrow> blocked_at r)
                      (case status_result of None \<Rightarrow> None | Some r \<Rightarrow> blocked_until r)
                      block_type by_whom
                      (case limits_result of None \<Rightarrow> False
                       | Some l \<Rightarrow> administrative_safe l = ''Y'')\<rparr>, w))"

text \<open>\<^verbatim>\<open>handle_api_event\<close>: both keys are required; the action selects the handler and any
  other action is answered with status 400.\<close>

definition handle_api_event :: "env \<Rightarrow> api_event \<Rightarrow> world \<Rightarrow> response \<times> world" where
  "handle_api_event e ev w =
     (case (ev_action ev, ev_user_id ev) of
        (Some act, Some uid) \<Rightarrow>
          if act = ''block'' then manual_block_user e uid ev w
          else if act = ''unblock'' then manual_unblock_user e uid ev w
          else if act = ''check_status'' then check_user_status e uid w
          else (\<lparr>statusCode = 400, body = ErrorBody (InvalidAction act)\<rparr>, w)
      | _ \<Rightarrow> (\<lparr>statusCode = 400, body = ErrorBody MissingParameters\<rparr>, w))"

text \<open>\<^verbatim>\<open>lambda_handler\<close>: an event with both \<^verbatim>\<open>action\<close> and \<^verbatim>\<open>user_id\<close> is an administrative
  command, anything else is a batch of usage events.\<close>

record lambda_event =
  api_part :: api_event
  events_to_process :: "detail list option"

definition lambda_handler :: "env \<Rightarrow> lambda_event \<Rightarrow> world \<Rightarrow> response \<times> world" where
  "lambda_handler e event w =
     (if ev_action (api_part event) \<noteq> None \<and> ev_user_id (api_part event) \<noteq> None
      then handle_api_event e (api_part event) w
      else handle_cloudtrail_event e (events_to_process event) w)"

subsection \<open>Expiration sweeper: the daily reset\<close>

text \<open>
  Step 1 of \<^verbatim>\<open>unblock_all_blocked_users_and_notify\<close>:
  \<^verbatim>\<open>SELECT ... FROM user_blocking_status ubs JOIN user_limits ul ON ubs.user_id = ul.user_id
  WHERE ubs.is_blocked = 'Y' AND (ubs.blocked_until IS NULL OR ubs.blocked_until <= %s)\<close>
  with the current CET time as parameter. The DATETIME column is compared with the wall-clock
  fields of the parameter.
\<close>

definition expired_blocked_users ::
  "env \<Rightarrow> world \<Rightarrow> (user_id \<times> blocking_row \<times> limits_row) list" where
  "expired_blocked_users e w =
     concat (map (\<lambda>(uid, ubs).
        (case map_of (user_limits w) uid of
           None \<Rightarrow> []
         | Some ul \<Rightarrow>
             if is_blocked ubs = ''Y'' \<and>
                (blocked_until ubs = None \<or>
                 to_micros (the (blocked_until ubs)) \<le> to_micros (wall (get_current_cet_time e)))
             then [(uid, ubs, ul)] else []))
       (user_blocking_status w))"

text \<open>
  Step 2:
  \<^verbatim>\<open>SELECT ... FROM user_limits ul LEFT JOIN user_blocking_status ubs ON ul.user_id = ubs.user_id
  WHERE ul.administrative_safe = 'Y' AND (ubs.is_blocked IS NULL OR ubs.is_blocked = 'N')\<close>
\<close>

definition active_admin_safe_users :: "world \<Rightarrow> (user_id \<times> limits_row) list" where
  "active_admin_safe_users w =
     filter (\<lambda>(uid, ul).
        administrative_safe ul = ''Y'' \<and>
        (case map_of (user_blocking_status w) uid of
           None \<Rightarrow> True
         | Some ubs \<Rightarrow> is_blocked ubs = ''N''))
       (user_limits w)"

text \<open>\<^verbatim>\<open>execute_user_unblocking\<close> of the daily reset: three statements in one \<^verbatim>\<open>try\<close>, then
  the IAM step, whose outcome is dropped.\<close>

definition execute_user_unblocking_daily_reset :: "env \<Rightarrow> user_id \<Rightarrow> world \<Rightarrow> bool \<times> world" where
  "execute_user_unblocking_daily_reset e uid w =
     (let current_cet_timestamp = get_cet_timestamp_string e in
      if fails e DbResetUnblock then (False, w)
      else
        let w1 = w\<lparr>user_blocking_status :=
                     sql_update
                       (\<lambda>r. r\<lparr>is_blocked := ''N'', blocked_reason := Some ''Daily reset unblock'',
                               blocked_until := None,
                               last_reset_at := Some current_cet_timestamp,
                               status_updated_at := Some current_cet_timestamp\<rparr>)
                       uid (user_blocking_status w)\<rparr>
        in
        if fails e DbResetClearSafe then (False, w1)
        else
          let w2 = w1\<lparr>user_limits :=
                       sql_update
                         (\<lambda>r. if administrative_safe r = ''Y''
                               then r\<lparr>administrative_safe := ''N'',
                                      limits_updated_at := Some current_cet_timestamp\<rparr>
                               else r)
                         uid (user_limits w1)\<rparr>
          in
          if fails e DbResetAudit then (False, w2)
          else
            let w3 = w2\<lparr>blocking_audit_log := blocking_audit_log w2 @
                         [\<lparr>audit_user_id = uid, operation_type = ''UNBLOCK'',
                           operation_reason = Some ''Daily reset'', performed_by = ''daily_reset'',
                           operation_timestamp = current_cet_timestamp,
                           daily_requests_at_operation = None, daily_limit_at_operation = None,
                           iam_policy_updated = None, email_sent = None,
                           audit_created_at = current_cet_timestamp\<rparr>]\<rparr>;
                (iam_ok, w4) = implement_iam_unblocking e uid w3
            in (True, w4))"

definition send_reset_email_notification ::
  "env \<Rightarrow> user_id \<times> blocking_row \<times> limits_row \<Rightarrow> world \<Rightarrow> bool \<times> world" where
  "send_reset_email_notification e user_row w =
     (let (uid, ubs, ul) = user_row;
          w1 = w\<lparr>lambda_invocations := lambda_invocations w @
                    [SendDailyResetEmail uid (person ul) (team ul) (daily_request_limit ul)]\<rparr>
      in (\<not> fails e ResetEmailInvoke, w1))"

definition remove_administrative_safe_flag :: "env \<Rightarrow> user_id \<Rightarrow> world \<Rightarrow> bool \<times> world" where
  "remove_administrative_safe_flag e uid w =
     (let current_cet_timestamp = get_cet_timestamp_string e in
      if fails e DbRemoveAdminSafe then (False, w)
      else
        (case map_of (user_limits w) uid of
           None \<Rightarrow> (True, w)
         | Some ul \<Rightarrow>
             if administrative_safe ul = ''Y'' then
               (True,
                w\<lparr>user_limits :=
                    sql_update
                      (\<lambda>r. if administrative_safe r = ''Y''
                            then r\<lparr>administrative_safe := ''N'',
                                   limits_updated_at := Some current_cet_timestamp\<rparr>
                            else r)
                      uid (user_limits w),
                  blocking_audit_log := blocking_audit_log w @
                    [\<lparr>audit_user_id = uid, operation_type = ''ADMIN_SAFE_REMOVED'',
                      operation_reason = Some ''Daily reset - remove admin safe flag'',
                      performed_by = ''daily_reset'',
                      operation_timestamp = current_cet_timestamp,
                      daily_requests_at_operation = None, daily_limit_at_operation = None,
                      iam_policy_updated = None, email_sent = None,
                      audit_created_at = current_cet_timestamp\<rparr>]\<rparr>)
             else (True, w)))"

datatype reset_error =
    QueryFailed
  | UnblockFailed user_id
  | EmailFailed user_id
  | RemoveFlagFailed user_id

record reset_results =
  unblocked_count :: nat
  notified_count :: nat
  admin_safe_removed_count :: nat
  errors :: "reset_error list"
  unblocked_users :: "user_id list"
  admin_safe_removed_users :: "user_id list"

definition empty_results :: reset_results where
  "empty_results =
     \<lparr>unblocked_count = 0, notified_count = 0, admin_safe_removed_count = 0, errors = [],
      unblocked_users = [], admin_safe_removed_users = []\<rparr>"

text \<open>The body of the first loop (pass 1): unblock one selected user and notify.\<close>

definition sweep_blocked_user ::
  "env \<Rightarrow> reset_results \<times> world \<Rightarrow> user_id \<times> blocking_row \<times> limits_row \<Rightarrow> reset_results \<times> world" where
  "sweep_blocked_user e rw user_row =
     (let (results, w) = rw;
          uid = fst user_row;
          (success, w1) = execute_user_unblocking_daily_reset e uid w
      in
      if success then
        (let r1 = results\<lparr>unblocked_count := unblocked_count results + 1,
                          unblocked_users := unblocked_users results @ [uid]\<rparr>;
             (email_was_sent, w2) = send_reset_email_notification e user_row w1
         in
         if email_was_sent then (r1\<lparr>notified_count := notified_count r1 + 1\<rparr>, w2)
         else (r1\<lparr>errors := errors r1 @ [EmailFailed uid]\<rparr>, w2))
      else (results\<lparr>errors := errors results @ [UnblockFailed uid]\<rparr>, w1))"

text \<open>The body of the second loop (pass 2): clear the protection flag of one active user.\<close>

definition sweep_admin_safe_user ::
  "env \<Rightarrow> reset_results \<times> world \<Rightarrow> user_id \<times> limits_row \<Rightarrow> reset_results \<times> world" where
  "sweep_admin_safe_user e rw user_row =
     (let (results, w) = rw;
          uid = fst user_row;
          (success, w1) = remove_administrative_safe_flag e uid w
      in
      if success then
        (results\<lparr>admin_safe_removed_count := admin_safe_removed_count results + 1,
                  admin_safe_removed_users := admin_safe_removed_users results @ [uid]\<rparr>, w1)
      else (results\<lparr>errors := errors results @ [RemoveFlagFailed uid]\<rparr>, w1))"

text \<open>\<^verbatim>\<open>unblock_all_blocked_users_and_notify\<close>: both queries run first, then the two
  loops.\<close>

definition unblock_all_blocked_users_and_notify :: "env \<Rightarrow> world \<Rightarrow> reset_results \<times> world" where
  "unblock_all_blocked_users_and_notify e w =
     (if fails e DbSelectExpired \<or> fails e DbSelectAdminSafe then
        (empty_results\<lparr>errors := [QueryFailed]\<rparr>, w)
      else
        let expired = expired_blocked_users e w;
            active = active_admin_safe_users w;
            rw1 = foldl (sweep_blocked_user e) (empty_results, w) expired
        in foldl (sweep_admin_safe_user e) rw1 active)"

subsection \<open>Concrete inputs\<close>

text \<open>A clock reading one microsecond before local midnight of 15 January 2025 (ordinal
  739266, UTC+1), and an environment whose failing call sites are listed.\<close>

definition example_now :: aware_datetime where
  "example_now =
     \<lparr>wall = \<lparr>ordinal = 739266, hour = 23, minute = 59, second = 59, microsecond = 999999\<rparr>,
      utcoffset = 3600\<rparr>"

definition example_env :: "call_site list \<Rightarrow> env" where
  "example_env failing =
     \<lparr>now = example_now, curdate = 739266, month_start = 739252,
      cet_offset = (\<lambda>d. 3600),
      fromisoformat_cet =
        (\<lambda>s. if s = ''2025-02-15T10:00:00Z''
              then Some \<lparr>wall = \<lparr>ordinal = 739297, hour = 11, minute = 0, second = 0,
                                 microsecond = 0\<rparr>, utcoffset = 3600\<rparr>
              else None),
      utc_to_cet =
        (\<lambda>s. if s = ''2025-01-15T22:59:59Z''
              then Some \<lparr>ordinal = 739266, hour = 23, minute = 59, second = 59,
                          microsecond = 0\<rparr>
              else None),
      EMAIL_NOTIFICATIONS_ENABLED = True,
      fails = (\<lambda>site. site \<in> set failing)\<rparr>"

definition empty_world :: world where
  "empty_world =
     \<lparr>user_limits = [], user_blocking_status = [], blocking_audit_log = [],
      bedrock_requests = [], user_policies = Map.empty, user_tags = (\<lambda>u. []),
      user_groups = (\<lambda>u. []), policy_calls = [], lambda_invocations = [],
      smtp_messages = []\<rparr>"

definition example_limits :: "int \<Rightarrow> string \<Rightarrow> limits_row" where
  "example_limits dlimit safe =
     \<lparr>team = ''yo_leo_engineering'', person = ''Ada'', daily_request_limit = dlimit,
      monthly_request_limit = 5000, administrative_safe = safe,
      limits_created_at = None, limits_updated_at = None\<rparr>"

definition example_block :: "naive_datetime option \<Rightarrow> blocking_row" where
  "example_block until =
     \<lparr>is_blocked = ''Y'', blocked_reason = Some ''Daily limit exceeded'',
      blocked_at = Some \<lparr>ordinal = 739265, hour = 9, minute = 0, second = 0, microsecond = 0\<rparr>,
      blocked_until = until, requests_at_blocking = Some 3, last_request_at = None,
      last_reset_at = None, status_created_at = None, status_updated_at = None\<rparr>"

definition example_request :: "user_id \<Rightarrow> request_row" where
  "example_request uid =
     \<lparr>req_user_id = uid, req_team = ''yo_leo_engineering'', req_person = ''Ada'',
      model_id = ''anthropic.claude-3-haiku-20240307-v1:0'', request_id = ''r'',
      source_ip = ''10.0.0.1'', user_agent = ''boto3'', aws_region = ''eu-west-1'',
      response_status = ''success'', error_message = None, processing_time_ms = 0,
      request_timestamp = \<lparr>ordinal = 739266, hour = 8, minute = 0, second = 0, microsecond = 0\<rparr>,
      req_created_at = \<lparr>ordinal = 739266, hour = 8, minute = 0, second = 0, microsecond = 0\<rparr>\<rparr>"

definition example_detail :: "user_id \<Rightarrow> detail" where
  "example_detail uid =
     \<lparr>arn = ''arn:aws:iam::701055077130:user/'' @ uid, eventName = ''InvokeModel'',
      requestParameters = Some ''anthropic.claude-3-haiku-20240307-v1:0'',
      sourceIPAddress = ''10.0.0.1'', userAgent = ''boto3'', requestID = ''r'',
      eventTime = ''2025-01-15T22:59:59Z'', awsRegion = ''eu-west-1'',
      responseTime = None, errorCode = None, errorMessage = None\<rparr>"

definition example_event :: "string \<Rightarrow> user_id \<Rightarrow> string option \<Rightarrow> api_event" where
  "example_event act uid expires =
     \<lparr>ev_action = Some act, ev_user_id = Some uid, ev_reason = Some ''policy review'',
      ev_performed_by = Some ''admin1'', ev_expires_at = expires, ev_duration = None\<rparr>"

text \<open>A policy whose only statement denies something unrelated to the engine, and one that
  also grants access.\<close>

definition deny_delete :: statement where
  "deny_delete =
     \<lparr>Sid = Some ''NoModelDeletion'', Effect = Some ''Deny'',
      Action = [''bedrock:DeleteCustomModel''], Resource = ''*''\<rparr>"

definition deny_only_world :: world where
  "deny_only_world =
     empty_world\<lparr>user_policies :=
       [''u5'' \<mapsto> \<lparr>Version = ''2012-10-17'', Statement = [deny_delete]\<rparr>]\<rparr>"

definition allow_world :: world where
  "allow_world =
     empty_world\<lparr>user_policies :=
       [''u5'' \<mapsto> \<lparr>Version = ''2012-10-17'', Statement = [deny_delete, new_policy_allow]\<rparr>]\<rparr>"

definition example_usage :: usage_info where
  "example_usage = \<lparr>daily_requests_used = 3, monthly_requests_used = 3, daily_limit = 3,
      monthly_limit = 5000, usage_administrative_safe = False\<rparr>"

text \<open>Scenario B: a protected account with five requests today against a daily limit of
  three (and the same account without protection).\<close>

definition protected_world :: "string \<Rightarrow> world" where
  "protected_world safe =
     empty_world\<lparr>user_limits := [(''u2'', example_limits 3 safe)],
                 bedrock_requests := replicate 5 (example_request ''u2'')\<rparr>"

text \<open>An account with tags, a daily limit of five and four requests today (80 per cent); the
  user \<^verbatim>\<open>kb-session\<close> has no tag and no group.\<close>

definition tagged_world :: world where
  "tagged_world =
     empty_world\<lparr>user_limits := [(''u1'', example_limits 5 ''N'')],
                 bedrock_requests := replicate 4 (example_request ''u1''),
                 user_tags :=
                   (\<lambda>u. if u = ''u1'' then [(''Team'', ''yo_leo_engineering''), (''Person'', ''Ada''),
                                             (''Email'', ''ada@example.com'')] else [])\<rparr>"

definition zero_counters :: counters where
  "zero_counters = \<lparr>processed_requests = 0, blocked_requests = 0, unblocked_requests = 0\<rparr>"

text \<open>Scenario D: \<^verbatim>\<open>u4\<close> is blocked with no expiry.\<close>

definition indefinite_world :: world where
  "indefinite_world =
     empty_world\<lparr>user_limits := [(''u4'', example_limits 350 ''N'')],
                 user_blocking_status := [(''u4'', example_block None)]\<rparr>"


text \<open>
  \<^verbatim>\<open>u6\<close> is blocked until the coming midnight; its policy holds the deny statement.
\<close>

definition blocked_world :: world where
  "blocked_world =
     empty_world\<lparr>user_limits := [(''u6'', example_limits 3 ''N'')],
                 user_blocking_status :=
                   [(''u6'', example_block
                       (Some \<lparr>ordinal = 739267, hour = 0, minute = 0, second = 0,
                              microsecond = 0\<rparr>))],
                 user_policies :=
                   [''u6'' \<mapsto> \<lparr>Version = ''2012-10-17'',
                                 Statement = [deny_statement, new_policy_allow]\<rparr>],
                 user_tags :=
                   (\<lambda>u. if u = ''u6'' then [(''Team'', ''yo_leo_engineering''), (''Person'', ''Ada''),
                                             (''Email'', ''ada@example.com'')] else [])\<rparr>"

section \<open>Properties\<close>

subsection \<open>Tables and frame lemmas\<close>

lemma map_of_sql_update:
  "map_of (sql_update f uid tbl) k =
     (if k = uid then map_option f (map_of tbl k) else map_of tbl k)"
  by (induction tbl) (auto simp: sql_update_def)

lemma map_of_upsert_block:
  "map_of (upsert_block uid rsn ts until used tbl) uid =
     Some ((case map_of tbl uid of
              None \<Rightarrow> \<lparr>is_blocked = ''Y'', blocked_reason = rsn, blocked_at = Some ts,
                        blocked_until = until, requests_at_blocking = Some used,
                        last_request_at = Some ts, last_reset_at = None,
                        status_created_at = Some ts, status_updated_at = Some ts\<rparr>
            | Some r \<Rightarrow> r\<lparr>is_blocked := ''Y'', blocked_reason := rsn, blocked_at := Some ts,
                    blocked_until := until, requests_at_blocking := Some used,
                    last_request_at := Some ts, status_updated_at := Some ts\<rparr>))"
  by (simp add: upsert_block_def map_of_sql_update map_add_def split: option.splits)

lemma upsert_block_fields:
  "map_of (upsert_block uid rsn ts until used tbl) uid = Some r \<Longrightarrow>
     is_blocked r = ''Y'' \<and> blocked_reason r = rsn \<and> blocked_at r = Some ts \<and>
     blocked_until r = until \<and> requests_at_blocking r = Some used"
  by (auto simp: map_of_upsert_block split: option.splits)


lemma iam_blocking_frame:
  "user_blocking_status (snd (implement_iam_blocking e uid w)) = user_blocking_status w"
  "user_limits (snd (implement_iam_blocking e uid w)) = user_limits w"
  "blocking_audit_log (snd (implement_iam_blocking e uid w)) = blocking_audit_log w"
  "bedrock_requests (snd (implement_iam_blocking e uid w)) = bedrock_requests w"
  "lambda_invocations (snd (implement_iam_blocking e uid w)) = lambda_invocations w"
  "smtp_messages (snd (implement_iam_blocking e uid w)) = smtp_messages w"
  "user_tags (snd (implement_iam_blocking e uid w)) = user_tags w"
  "user_groups (snd (implement_iam_blocking e uid w)) = user_groups w"
  by (simp_all add: implement_iam_blocking_def Let_def split: option.splits)


lemma gmail_frame:
  "user_blocking_status (snd (send_gmail_email e m w)) = user_blocking_status w"
  "user_limits (snd (send_gmail_email e m w)) = user_limits w"
  "blocking_audit_log (snd (send_gmail_email e m w)) = blocking_audit_log w"
  "bedrock_requests (snd (send_gmail_email e m w)) = bedrock_requests w"
  "lambda_invocations (snd (send_gmail_email e m w)) = lambda_invocations w"
  "user_policies (snd (send_gmail_email e m w)) = user_policies w"
  "policy_calls (snd (send_gmail_email e m w)) = policy_calls w"
  "user_tags (snd (send_gmail_email e m w)) = user_tags w"
  "user_groups (snd (send_gmail_email e m w)) = user_groups w"
  by (simp_all add: send_gmail_email_def)

lemma blocking_gmail_frame:
  "user_blocking_status (snd (send_blocking_email_gmail e uid rsn u t w)) = user_blocking_status w"
  "user_limits (snd (send_blocking_email_gmail e uid rsn u t w)) = user_limits w"
  "blocking_audit_log (snd (send_blocking_email_gmail e uid rsn u t w)) = blocking_audit_log w"
  "bedrock_requests (snd (send_blocking_email_gmail e uid rsn u t w)) = bedrock_requests w"
  "lambda_invocations (snd (send_blocking_email_gmail e uid rsn u t w)) = lambda_invocations w"
  "user_policies (snd (send_blocking_email_gmail e uid rsn u t w)) = user_policies w"
  "policy_calls (snd (send_blocking_email_gmail e uid rsn u t w)) = policy_calls w"
  by (simp_all add: send_blocking_email_gmail_def gmail_frame split: option.splits)



lemma enhanced_blocking_frame:
  "user_blocking_status (snd (send_enhanced_blocking_email e uid rsn u by_whom w)) = user_blocking_status w"
  "user_limits (snd (send_enhanced_blocking_email e uid rsn u by_whom w)) = user_limits w"
  "blocking_audit_log (snd (send_enhanced_blocking_email e uid rsn u by_whom w)) = blocking_audit_log w"
  "bedrock_requests (snd (send_enhanced_blocking_email e uid rsn u by_whom w)) = bedrock_requests w"
  "user_policies (snd (send_enhanced_blocking_email e uid rsn u by_whom w)) = user_policies w"
  "policy_calls (snd (send_enhanced_blocking_email e uid rsn u by_whom w)) = policy_calls w"
  by (simp_all add: send_enhanced_blocking_email_def Let_def blocking_gmail_frame)

subsection \<open>Policy Synchronizer\<close>

lemma strip_deny_idem: "strip_deny (strip_deny stmts) = strip_deny stmts"
  by (simp add: strip_deny_def)


lemma strip_deny_id:
  "\<forall>stmt \<in> set stmts. Sid stmt \<noteq> Some ''DailyLimitBlock'' \<Longrightarrow> strip_deny stmts = stmts"
  by (simp add: strip_deny_def)

lemma strip_deny_deny_cons: "strip_deny (deny_statement # stmts) = strip_deny stmts"
  by (simp add: strip_deny_def deny_statement_def)

lemma implement_iam_blocking_existing:
  assumes "\<not> fails e IamGetPolicyBlock" "\<not> fails e IamPutPolicyBlock"
          "\<not> fails e IamVerifyPolicyBlock" "user_policies w uid = Some p"
  shows "implement_iam_blocking e uid w =
           (True, w\<lparr>policy_calls := policy_calls w @
                      [GetUserPolicy uid,
                       PutUserPolicy uid (p\<lparr>Statement := deny_statement # strip_deny (Statement p)\<rparr>),
                       GetUserPolicy uid],
                    user_policies := (user_policies w)
                      (uid \<mapsto> p\<lparr>Statement := deny_statement # strip_deny (Statement p)\<rparr>)\<rparr>)"
  using assms by (simp add: implement_iam_blocking_def Let_def deny_statement_def)

lemma implement_iam_unblocking_existing:
  assumes "\<not> fails e IamGetPolicyUnblock" "\<not> fails e IamPutPolicyUnblock"
          "user_policies w uid = Some p"
  shows "implement_iam_unblocking e uid w =
           (True, w\<lparr>policy_calls := policy_calls w @
                      [GetUserPolicy uid,
                       PutUserPolicy uid
                         (p\<lparr>Statement :=
                             (if list_ex (\<lambda>stmt. Effect stmt = Some ''Allow'') (strip_deny (Statement p))
                              then strip_deny (Statement p)
                              else strip_deny (Statement p) @ [default_allow])\<rparr>)],
                    user_policies := (user_policies w)
                      (uid \<mapsto> p\<lparr>Statement :=
                             (if list_ex (\<lambda>stmt. Effect stmt = Some ''Allow'') (strip_deny (Statement p))
                              then strip_deny (Statement p)
                              else strip_deny (Statement p) @ [default_allow])\<rparr>)\<rparr>)"
  using assms by (simp add: implement_iam_unblocking_def Let_def)

text \<open>
  C5 (corrected). Adding the deny statement and removing it again gives back the original
  statements, in their order, exactly when one of them has effect Allow. When none has,
  \<^verbatim>\<open>implement_iam_unblocking\<close> appends its default allow statement, so the document ends with
  one statement more than it started with. Stated for a user that has a policy none of whose
  statements carries the deny Sid, with every IAM call succeeding.
\<close>

theorem add_then_remove_deny:
  assumes get_b: "\<not> fails e IamGetPolicyBlock" and put_b: "\<not> fails e IamPutPolicyBlock"
      and ver_b: "\<not> fails e IamVerifyPolicyBlock"
      and get_u: "\<not> fails e IamGetPolicyUnblock" and put_u: "\<not> fails e IamPutPolicyUnblock"
      and pol: "user_policies w uid = Some p"
      and unrelated: "\<forall>stmt \<in> set (Statement p). Sid stmt \<noteq> Some DENY_STATEMENT_SID"
  shows "fst (implement_iam_blocking e uid w) \<and>
         fst (implement_iam_unblocking e uid (snd (implement_iam_blocking e uid w))) \<and>
         user_policies (snd (implement_iam_unblocking e uid (snd (implement_iam_blocking e uid w)))) uid =
           Some (p\<lparr>Statement :=
                    (if list_ex (\<lambda>stmt. Effect stmt = Some ''Allow'') (Statement p)
                     then Statement p
                     else Statement p @ [default_allow])\<rparr>)"
proof -
  let ?q = "p\<lparr>Statement := deny_statement # strip_deny (Statement p)\<rparr>"
  have keep: "strip_deny (Statement p) = Statement p"
    using unrelated by (simp add: strip_deny_id DENY_STATEMENT_SID_def)
  have b: "implement_iam_blocking e uid w =
           (True, w\<lparr>policy_calls := policy_calls w @
                      [GetUserPolicy uid, PutUserPolicy uid ?q, GetUserPolicy uid],
                    user_policies := (user_policies w)(uid \<mapsto> ?q)\<rparr>)"
    using implement_iam_blocking_existing [OF get_b put_b ver_b pol] .
  let ?w1 = "snd (implement_iam_blocking e uid w)"
  have pol1: "user_policies ?w1 uid = Some ?q"
    by (simp add: b)
  have u: "implement_iam_unblocking e uid ?w1 = (True, ?w1\<lparr>policy_calls := policy_calls ?w1 @
                      [GetUserPolicy uid,
                       PutUserPolicy uid
                         (?q\<lparr>Statement :=
                             (if list_ex (\<lambda>stmt. Effect stmt = Some ''Allow'') (strip_deny (Statement ?q))
                              then strip_deny (Statement ?q)
                              else strip_deny (Statement ?q) @ [default_allow])\<rparr>)],
                    user_policies := (user_policies ?w1)
                      (uid \<mapsto> ?q\<lparr>Statement :=
                             (if list_ex (\<lambda>stmt. Effect stmt = Some ''Allow'') (strip_deny (Statement ?q))
                              then strip_deny (Statement ?q)
                              else strip_deny (Statement ?q) @ [default_allow])\<rparr>)\<rparr>)"
    using implement_iam_unblocking_existing [OF get_u put_u pol1] .
  have s: "strip_deny (Statement ?q) = Statement p"
    by (simp add: strip_deny_deny_cons strip_deny_idem keep)
  show ?thesis
    unfolding u s by (simp add: b)
qed

text \<open>The round trip on a policy that grants access: the two statements come back as they
  were.\<close>

theorem add_then_remove_deny_witness:
  "\<not> fails (example_env []) IamGetPolicyBlock \<and> \<not> fails (example_env []) IamPutPolicyBlock \<and>
   \<not> fails (example_env []) IamVerifyPolicyBlock \<and>
   \<not> fails (example_env []) IamGetPolicyUnblock \<and> \<not> fails (example_env []) IamPutPolicyUnblock \<and>
   user_policies allow_world ''u5'' =
     Some \<lparr>Version = ''2012-10-17'', Statement = [deny_delete, new_policy_allow]\<rparr> \<and>
   list_all (\<lambda>stmt. Sid stmt \<noteq> Some DENY_STATEMENT_SID) [deny_delete, new_policy_allow] \<and>
   user_policies
     (snd (implement_iam_unblocking (example_env []) ''u5''
            (snd (implement_iam_blocking (example_env []) ''u5'' allow_world)))) ''u5'' =
     Some \<lparr>Version = ''2012-10-17'', Statement = [deny_delete, new_policy_allow]\<rparr>"
proof -
  have f: "\<not> fails (example_env []) IamGetPolicyBlock" "\<not> fails (example_env []) IamPutPolicyBlock"
          "\<not> fails (example_env []) IamVerifyPolicyBlock"
          "\<not> fails (example_env []) IamGetPolicyUnblock" "\<not> fails (example_env []) IamPutPolicyUnblock"
    by (simp_all add: example_env_def)
  have p: "user_policies allow_world ''u5'' =
             Some \<lparr>Version = ''2012-10-17'', Statement = [deny_delete, new_policy_allow]\<rparr>"
    by (simp add: allow_world_def empty_world_def)
  have n: "\<forall>stmt \<in> set (Statement \<lparr>Version = ''2012-10-17'',
              Statement = [deny_delete, new_policy_allow]\<rparr>). Sid stmt \<noteq> Some DENY_STATEMENT_SID"
    by (simp add: deny_delete_def new_policy_allow_def DENY_STATEMENT_SID_def)
  show ?thesis
    using f p n add_then_remove_deny [OF f p n]
    by (simp add: deny_delete_def new_policy_allow_def)
qed

text \<open>The claim as stated fails on a policy with one unrelated deny statement: the round trip
  returns two statements.\<close>

theorem add_then_remove_deny_counterexample:
  "user_policies deny_only_world ''u5'' =
     Some \<lparr>Version = ''2012-10-17'', Statement = [deny_delete]\<rparr> \<and>
   Sid deny_delete \<noteq> Some DENY_STATEMENT_SID \<and>
   user_policies
     (snd (implement_iam_unblocking (example_env []) ''u5''
            (snd (implement_iam_blocking (example_env []) ''u5'' deny_only_world)))) ''u5'' =
     Some \<lparr>Version = ''2012-10-17'', Statement = [deny_delete, default_allow]\<rparr>"
  by (simp add: deny_only_world_def empty_world_def example_env_def implement_iam_blocking_def
      implement_iam_unblocking_def Let_def strip_deny_def deny_delete_def deny_statement_def
      DENY_STATEMENT_SID_def)

subsection \<open>Concrete inputs, evaluated\<close>

lemma example_env_fields:
  "now (example_env fs) = example_now"
  "curdate (example_env fs) = 739266"
  "month_start (example_env fs) = 739252"
  "cet_offset (example_env fs) d = 3600"
  "utc_to_cet (example_env fs) ''2025-01-15T22:59:59Z'' =
     Some \<lparr>ordinal = 739266, hour = 23, minute = 59, second = 59, microsecond = 0\<rparr>"
  "EMAIL_NOTIFICATIONS_ENABLED (example_env fs) = True"
  "fails (example_env fs) site = (site \<in> set fs)"
  by (simp_all add: example_env_def)

lemma tagged_world_fields:
  "user_limits tagged_world = [(''u1'', example_limits 5 ''N'')]"
  "user_blocking_status tagged_world = []"
  "blocking_audit_log tagged_world = []"
  "bedrock_requests tagged_world = replicate 4 (example_request ''u1'')"
  "user_tags tagged_world ''u1'' =
     [(''Team'', ''yo_leo_engineering''), (''Person'', ''Ada''), (''Email'', ''ada@example.com'')]"
  "user_tags tagged_world ''kb-session'' = []"
  "user_groups tagged_world u = []"
  "lambda_invocations tagged_world = []"
  "smtp_messages tagged_world = []"
  "policy_calls tagged_world = []"
  by (simp_all add: tagged_world_def empty_world_def)

lemma example_detail_fields:
  "requestParameters (example_detail u) = Some ''anthropic.claude-3-haiku-20240307-v1:0''"
  "errorCode (example_detail u) = None"
  "responseTime (example_detail u) = None"
  "eventTime (example_detail u) = ''2025-01-15T22:59:59Z''"
  by (simp_all add: example_detail_def)

lemma extract_example_user:
  "extract_user_from_arn (arn (example_detail ''u1'')) = Some ''u1''"
  "extract_user_from_arn (arn (example_detail ''kb-session'')) = Some ''kb-session''"
  by (simp_all add: extract_user_from_arn_def example_detail_def match_iam_user_def is_digit_def
      dot_plus_def)

lemma tagged_identities:
  "get_user_team (example_env []) tagged_world ''u1'' = ''yo_leo_engineering''"
  "get_user_person_tag (example_env []) tagged_world ''u1'' = ''Ada''"
  "get_user_team (example_env []) tagged_world ''kb-session'' = ''unknown''"
  "get_user_person_tag (example_env []) tagged_world ''kb-session'' = ''Unknown''"
  by (simp_all add: get_user_team_def get_user_person_tag_def example_env_fields
      tagged_world_fields find_tag_def str_lower_def lower_char_def)

lemma parse_example_u1:
  "parse_bedrock_event (example_env []) (example_detail ''u1'') =
     Some \<lparr>rd_user_id = ''u1'', rd_model_id = ''anthropic.claude-3-haiku-20240307-v1:0'',
           rd_region = awsRegion (example_detail ''u1''),
           rd_source_ip = sourceIPAddress (example_detail ''u1''),
           rd_user_agent = userAgent (example_detail ''u1''),
           rd_request_id = requestID (example_detail ''u1''),
           rd_response_time_ms = 0, rd_status_code = 200, rd_error_message = None,
           rd_cet_timestamp =
             \<lparr>ordinal = 739266, hour = 23, minute = 59, second = 59, microsecond = 0\<rparr>\<rparr>"
  by (simp add: parse_bedrock_event_def extract_example_user example_detail_fields
      convert_utc_to_cet_def example_env_fields)

lemma tagged_u1_steps:
  "ensure_user_exists (example_env []) ''u1'' tm ps tagged_world = tagged_world"
  "check_user_blocking_status (example_env []) ''u1'' tagged_world = ((False, None), tagged_world)"
  "check_user_limits_with_protection (example_env []) ''u1'' tagged_world =
     (False, None,
      Some \<lparr>daily_requests_used = 4, monthly_requests_used = 4, daily_limit = 5,
            monthly_limit = 5000, usage_administrative_safe = False\<rparr>)"
  by (simp_all add: ensure_user_exists_def check_user_blocking_status_def
      check_user_limits_with_protection_def count_daily_def count_monthly_def
      example_env_fields tagged_world_fields example_limits_def example_request_def
      eval_nat_numeral)

lemma tagged_u1_processed:
  "process_detail (example_env []) (example_detail ''u1'') (zero_counters, tagged_world) =
     (zero_counters\<lparr>processed_requests := 1\<rparr>,
      log_bedrock_request_cet (example_env [])
        (the (parse_bedrock_event (example_env []) (example_detail ''u1'')))
        ''yo_leo_engineering'' ''Ada'' tagged_world)"
  by (simp add: process_detail_def extract_example_user tagged_identities tagged_u1_steps
      parse_example_u1 zero_counters_def)

subsection \<open>Automatic block and unblock\<close>


lemma execute_user_blocking_status:
  assumes ok: "\<not> fails e DbUpsertBlock"
  shows "user_blocking_status (snd (execute_user_blocking e uid rsn (Some u) w)) =
     upsert_block uid rsn (get_cet_timestamp_string e)
       (Some (strftime (replace_midnight (add_days (get_current_cet_time e) 1))))
       (daily_requests_used u) (user_blocking_status w)"
proof -
  let ?w1 = "w\<lparr>user_blocking_status :=
                 upsert_block uid rsn (get_cet_timestamp_string e)
                   (Some (strftime (replace_midnight (add_days (get_current_cet_time e) 1))))
                   (daily_requests_used u) (user_blocking_status w)\<rparr>"
  let ?w2 = "snd (implement_iam_blocking e uid ?w1)"
  let ?w3 = "snd (send_blocking_email_gmail e uid rsn u
                    (replace_midnight (add_days (get_current_cet_time e) 1)) ?w2)"
  have "user_blocking_status (snd (execute_user_blocking e uid rsn (Some u) w)) =
        user_blocking_status ?w3"
    using ok by (simp add: execute_user_blocking_def Let_def split: prod.splits)
  also have "\<dots> = user_blocking_status ?w1"
    by (simp add: blocking_gmail_frame iam_blocking_frame)
  finally show ?thesis by simp
qed



lemma iam_unblocking_calls:
  "\<exists>rest. policy_calls (snd (implement_iam_unblocking e uid w)) =
            policy_calls w @ GetUserPolicy uid # rest"
  by (simp add: implement_iam_unblocking_def Let_def split: option.splits)






lemma next_midnight_least:
  assumes "E = \<lparr>ordinal = ordinal T + 1, hour = 0, minute = 0, second = 0, microsecond = 0\<rparr>"
  shows "naive_less T E \<and> is_midnight E \<and>
         (\<forall>M. is_midnight M \<and> naive_less T M \<longrightarrow> naive_le E M)"
proof (intro conjI allI impI)
  show "naive_less T E" using assms by (simp add: naive_less_def)
  show "is_midnight E" using assms by (simp add: is_midnight_def)
next
  fix M assume m: "is_midnight M \<and> naive_less T M"
  then have "ordinal T < ordinal M"
    by (auto simp: is_midnight_def naive_less_def)
  then have "ordinal E < ordinal M \<or> ordinal E = ordinal M" using assms by auto
  then show "naive_le E M"
  proof
    assume "ordinal E < ordinal M"
    then show ?thesis by (simp add: naive_le_def naive_less_def)
  next
    assume "ordinal E = ordinal M"
    then have "E = M" using m assms by (simp add: is_midnight_def)
    then show ?thesis by (simp add: naive_le_def)
  qed
qed

lemma next_midnight_later_instant:
  assumes "valid_time (wall a)"
  shows "utc_micros a < utc_micros (replace_midnight (add_days a 1))"
proof -
  have h: "int (hour (wall a)) \<le> 23" "int (minute (wall a)) \<le> 59"
          "int (second (wall a)) \<le> 59" "int (microsecond (wall a)) \<le> 999999"
    using assms by (auto simp: valid_time_def)
  show ?thesis
    using h by (simp add: utc_micros_def to_micros_def replace_midnight_def add_days_def)
qed

text \<open>
  C7 (confirmed). An automatic block applied at local wall-clock time \<open>T\<close> (the reading of
  \<^verbatim>\<open>datetime.now(CET)\<close>, whatever UTC offset is in force) stores as \<^verbatim>\<open>blocked_until\<close> the
  value \<open>E\<close> with the next calendar day and time 00:00:00. \<open>E\<close> is later than \<open>T\<close>, it is a
  midnight, and no midnight lies strictly between \<open>T\<close> and \<open>E\<close>: it is the next local
  midnight strictly after \<open>T\<close>. The offset plays no part, so days on which it changes are
  covered. The aware value \<^verbatim>\<open>blocked_until_cet\<close> that the source computes is a later instant
  than \<open>T\<close> as well.
\<close>

theorem automatic_block_expires_next_midnight:
  assumes ok: "\<not> fails e DbUpsertBlock"
  shows "\<exists>r E. map_of (user_blocking_status
                   (snd (execute_user_blocking e uid rsn (Some u) w))) uid = Some r \<and>
           blocked_until r = Some E \<and>
           E = \<lparr>ordinal = ordinal (wall (now e)) + 1, hour = 0, minute = 0, second = 0,
                microsecond = 0\<rparr> \<and>
           naive_less (wall (now e)) E \<and> is_midnight E \<and>
           (\<forall>M. is_midnight M \<and> naive_less (wall (now e)) M \<longrightarrow> naive_le E M) \<and>
           E = strftime (replace_midnight (add_days (now e) 1)) \<and>
           (valid_time (wall (now e)) \<longrightarrow>
              utc_micros (now e) < utc_micros (replace_midnight (add_days (now e) 1)))"
proof -
  let ?E = "\<lparr>ordinal = ordinal (wall (now e)) + 1, hour = 0, minute = 0, second = 0,
             microsecond = 0\<rparr>"
  have E: "strftime (replace_midnight (add_days (get_current_cet_time e) 1)) = ?E"
    by (simp add: strftime_def replace_midnight_def add_days_def get_current_cet_time_def)
  have E': "?E = strftime (replace_midnight (add_days (now e) 1))"
    by (simp add: strftime_def replace_midnight_def add_days_def)
  obtain r where
    r: "map_of (user_blocking_status (snd (execute_user_blocking e uid rsn (Some u) w))) uid = Some r"
    using ok by (simp add: execute_user_blocking_status map_of_upsert_block)
  from r ok have "map_of (upsert_block uid rsn (get_cet_timestamp_string e) (Some ?E)
       (daily_requests_used u) (user_blocking_status w)) uid = Some r"
    by (simp add: execute_user_blocking_status E)
  from upsert_block_fields [OF this] have "blocked_until r = Some ?E"
    by simp
  with r next_midnight_least [of ?E "wall (now e)"] E'
    next_midnight_later_instant [of "now e"]
  show ?thesis
    by blast
qed

text \<open>
  An instance: a block one microsecond before midnight expires at that midnight.
\<close>

theorem automatic_block_expires_next_midnight_witness:
  "\<not> fails (example_env []) DbUpsertBlock \<and>
   wall (now (example_env [])) =
     \<lparr>ordinal = 739266, hour = 23, minute = 59, second = 59, microsecond = 999999\<rparr> \<and>
   map_option blocked_until
     (map_of (user_blocking_status
        (snd (execute_user_blocking (example_env []) ''u1'' (Some ''Daily limit exceeded'')
               (Some example_usage) empty_world))) ''u1'') =
     Some (Some \<lparr>ordinal = 739267, hour = 0, minute = 0, second = 0, microsecond = 0\<rparr>) \<and>
   naive_less (wall (now (example_env [])))
     \<lparr>ordinal = 739267, hour = 0, minute = 0, second = 0, microsecond = 0\<rparr>"
proof -
  have h: "\<not> fails (example_env []) DbUpsertBlock"
    by (simp add: example_env_def)
  have n: "wall (now (example_env [])) =
     \<lparr>ordinal = 739266, hour = 23, minute = 59, second = 59, microsecond = 999999\<rparr>"
    by (simp add: example_env_def example_now_def)
  from automatic_block_expires_next_midnight [OF h, of "''u1''" "Some ''Daily limit exceeded''"
      example_usage empty_world]
  show ?thesis using h n by auto
qed

subsection \<open>Usage evaluator\<close>

text \<open>
  C3 (confirmed). For an account whose limits row has \<^verbatim>\<open>administrative_safe = 'Y'\<close>,
  \<^verbatim>\<open>check_user_limits_with_protection\<close> returns \<^verbatim>\<open>should_block = False\<close>, whatever the usage
  counts and the limits are and whichever query fails.
\<close>

theorem protection_overrides_usage:
  assumes "map_of (user_limits w) uid = Some l" and "administrative_safe l = ''Y''"
  shows "fst (check_user_limits_with_protection e uid w) = False"
  using assms by (simp add: check_user_limits_with_protection_def)

text \<open>
  Scenario B: five requests today against a limit of three; protected, the account is not
  to be blocked; unprotected, it is.
\<close>

theorem protection_overrides_usage_witness:
  "map_of (user_limits (protected_world ''Y'')) ''u2'' = Some (example_limits 3 ''Y'') \<and>
   administrative_safe (example_limits 3 ''Y'') = ''Y'' \<and>
   daily_request_limit (example_limits 3 ''Y'') = 3 \<and>
   count_daily (example_env []) (protected_world ''Y'') ''u2'' = 5 \<and>
   fst (check_user_limits_with_protection (example_env []) ''u2'' (protected_world ''Y'')) = False \<and>
   fst (check_user_limits_with_protection (example_env []) ''u2'' (protected_world ''N'')) = True"
proof -
  have a: "map_of (user_limits (protected_world ''Y'')) ''u2'' = Some (example_limits 3 ''Y'')"
    by (simp add: protected_world_def empty_world_def)
  have b: "administrative_safe (example_limits 3 ''Y'') = ''Y''"
    by (simp add: example_limits_def)
  have c: "count_daily (example_env []) (protected_world ''Y'') ''u2'' = 5"
    by (simp add: count_daily_def protected_world_def empty_world_def example_env_def
        example_request_def eval_nat_numeral)
  have d: "fst (check_user_limits_with_protection (example_env []) ''u2'' (protected_world ''N''))"
    by (simp add: check_user_limits_with_protection_def count_daily_def count_monthly_def
        protected_world_def empty_world_def example_env_def example_request_def
        example_limits_def eval_nat_numeral)
  show ?thesis
    using a b c d protection_overrides_usage [OF a b, of "example_env []"]
    by (simp add: example_limits_def)
qed

subsection \<open>Usage events\<close>

text \<open>
  C10 (confirmed). A usage event whose user resolves to team \<^verbatim>\<open>'unknown'\<close> and person
  \<^verbatim>\<open>'Unknown'\<close> is skipped: the loop body returns the counters and the whole state as they
  were, so no usage row and no account row is written, no limit is evaluated and no block or
  unblock runs.
\<close>

theorem unknown_identity_event_skipped:
  assumes "extract_user_from_arn (arn d) = Some uid"
      and "get_user_team e w uid = ''unknown''"
      and "get_user_person_tag e w uid = ''Unknown''"
  shows "process_detail e d (c, w) = (c, w)"
  using assms by (simp add: process_detail_def)

text \<open>
  An instance: the event of the untagged user \<^verbatim>\<open>kb-session\<close> changes nothing, while the same
  event from a tagged user is recorded.
\<close>

theorem unknown_identity_event_skipped_witness:
  "extract_user_from_arn (arn (example_detail ''kb-session'')) = Some ''kb-session'' \<and>
   get_user_team (example_env []) tagged_world ''kb-session'' = ''unknown'' \<and>
   get_user_person_tag (example_env []) tagged_world ''kb-session'' = ''Unknown'' \<and>
   process_detail (example_env []) (example_detail ''kb-session'') (zero_counters, tagged_world) =
     (zero_counters, tagged_world) \<and>
   processed_requests
     (fst (process_detail (example_env []) (example_detail ''u1'') (zero_counters, tagged_world))) = 1 \<and>
   length (bedrock_requests
     (snd (process_detail (example_env []) (example_detail ''u1'') (zero_counters, tagged_world)))) =
     length (bedrock_requests tagged_world) + 1"
  using unknown_identity_event_skipped [OF extract_example_user(2) tagged_identities(3,4),
      of zero_counters]
  by (simp add: extract_example_user tagged_identities tagged_u1_processed
      log_bedrock_request_cet_def example_env_fields)

subsection \<open>Expiration sweeper\<close>

lemma expired_blocked_users_member:
  assumes "map_of (user_blocking_status w) uid = Some ubs" and "is_blocked ubs = ''Y''"
      and "blocked_until ubs = None \<or>
           to_micros (the (blocked_until ubs)) \<le> to_micros (wall (get_current_cet_time e))"
      and "map_of (user_limits w) uid = Some ul"
  shows "(uid, ubs, ul) \<in> set (expired_blocked_users e w)"
proof -
  have "(uid, ubs) \<in> set (user_blocking_status w)"
    using assms(1) by (rule map_of_SomeD)
  then show ?thesis
    using assms(2-4) by (force simp: expired_blocked_users_def)
qed

text \<open>
  C2 (corrected). The daily reset does select indefinite blocks: its first query keeps every
  blocked row whose \<^verbatim>\<open>blocked_until\<close> is NULL. For every account with a limits row whose
  BlockRecord is blocked with no expiry, pass 1 selects the account at every run, whatever the
  current time. It is the status check of the real-time controller that leaves such a block in
  place at every time.
\<close>

theorem indefinite_block_selected_by_sweeper:
  assumes "map_of (user_blocking_status w) uid = Some ubs" and "is_blocked ubs = ''Y''"
      and "blocked_until ubs = None" and "map_of (user_limits w) uid = Some ul"
  shows "(uid, ubs, ul) \<in> set (expired_blocked_users e w) \<and>
         (\<not> fails e DbSelectStatus \<longrightarrow>
            check_user_blocking_status e uid w = ((True, blocked_reason ubs), w))"
  using assms expired_blocked_users_member [of w uid ubs e ul]
  by (simp add: check_user_blocking_status_def)

text \<open>Scenario D: the sweep selects the indefinitely blocked \<^verbatim>\<open>u4\<close>.\<close>

theorem indefinite_block_selected_by_sweeper_witness:
  "map_of (user_blocking_status indefinite_world) ''u4'' = Some (example_block None) \<and>
   is_blocked (example_block None) = ''Y'' \<and> blocked_until (example_block None) = None \<and>
   map_of (user_limits indefinite_world) ''u4'' = Some (example_limits 350 ''N'') \<and>
   (''u4'', example_block None, example_limits 350 ''N'')
     \<in> set (expired_blocked_users (example_env []) indefinite_world) \<and>
   \<not> fails (example_env []) DbSelectStatus \<and>
   check_user_blocking_status (example_env []) ''u4'' indefinite_world =
     ((True, Some ''Daily limit exceeded''), indefinite_world)"
proof -
  have a: "map_of (user_blocking_status indefinite_world) ''u4'' = Some (example_block None)"
    by (simp add: indefinite_world_def empty_world_def)
  have b: "is_blocked (example_block None) = ''Y''" "blocked_until (example_block None) = None"
    by (simp_all add: example_block_def)
  have c: "map_of (user_limits indefinite_world) ''u4'' = Some (example_limits 350 ''N'')"
    by (simp add: indefinite_world_def empty_world_def)
  from indefinite_block_selected_by_sweeper [OF a b c, of "example_env []"]
  show ?thesis using a b c by (simp add: example_env_fields example_block_def)
qed

text \<open>The claim as stated fails in scenario D: pass 1 selects \<^verbatim>\<open>u4\<close>, and the sweep
  unblocks it.\<close>

theorem indefinite_block_counterexample:
  "map_of (user_blocking_status indefinite_world) ''u4'' = Some (example_block None) \<and>
   is_blocked (example_block None) = ''Y'' \<and> blocked_until (example_block None) = None \<and>
   map fst (expired_blocked_users (example_env []) indefinite_world) = [''u4''] \<and>
   unblocked_users (fst (unblock_all_blocked_users_and_notify (example_env []) indefinite_world))
     = [''u4''] \<and>
   map_option is_blocked
     (map_of (user_blocking_status
        (snd (unblock_all_blocked_users_and_notify (example_env []) indefinite_world))) ''u4'')
     = Some ''N''"
  by (simp add: indefinite_world_def empty_world_def example_block_def example_limits_def
      expired_blocked_users_def unblock_all_blocked_users_and_notify_def example_env_def
      active_admin_safe_users_def sweep_blocked_user_def execute_user_unblocking_daily_reset_def
      send_reset_email_notification_def implement_iam_unblocking_def empty_results_def
      sql_update_def Let_def split_beta)

subsection \<open>The status check unblocks\<close>


lemma example_block_fields:
  "is_blocked (example_block t) = ''Y''"
  "blocked_until (example_block t) = t"
  "blocked_reason (example_block t) = Some ''Daily limit exceeded''"
  by (simp_all add: example_block_def)

lemma example_event_fields:
  "ev_action (example_event act uid expires) = Some act"
  "ev_user_id (example_event act uid expires) = Some uid"
  "ev_reason (example_event act uid expires) = Some ''policy review''"
  "ev_performed_by (example_event act uid expires) = Some ''admin1''"
  "ev_expires_at (example_event act uid expires) = expires"
  by (simp_all add: example_event_def)


lemma blocked_world_facts:
  "map_of (user_blocking_status blocked_world) ''u6'' =
     Some (example_block (Some \<lparr>ordinal = 739267, hour = 0, minute = 0, second = 0,
                                 microsecond = 0\<rparr>))"
  "user_limits blocked_world = [(''u6'', example_limits 3 ''N'')]"
  "user_blocking_status blocked_world =
     [(''u6'', example_block (Some \<lparr>ordinal = 739267, hour = 0, minute = 0, second = 0,
                                     microsecond = 0\<rparr>))]"
  "bedrock_requests blocked_world = []"
  "blocking_audit_log blocked_world = []"
  "lambda_invocations blocked_world = []"
  "smtp_messages blocked_world = []"
  "policy_calls blocked_world = []"
  "user_policies blocked_world ''u6'' =
     Some \<lparr>Version = ''2012-10-17'', Statement = [deny_statement, new_policy_allow]\<rparr>"
  by (simp_all add: blocked_world_def empty_world_def)


lemma extract_u6: "extract_user_from_arn (arn (example_detail ''u6'')) = Some ''u6''"
  by (simp add: extract_user_from_arn_def example_detail_def match_iam_user_def is_digit_def
      dot_plus_def)

lemma usage_u6:
  "get_user_current_usage (example_env []) ''u6'' blocked_world =
     \<lparr>daily_requests_used = 0, monthly_requests_used = 0, daily_limit = 3,
      monthly_limit = 5000, usage_administrative_safe = False\<rparr>"
  by (simp add: get_user_current_usage_def example_env_fields blocked_world_facts
      example_limits_def count_daily_def count_monthly_def)




subsection \<open>A block request on a blocked account\<close>

lemma ensure_user_exists_frame:
  "user_blocking_status (ensure_user_exists e uid tm ps w) = user_blocking_status w"
  "blocking_audit_log (ensure_user_exists e uid tm ps w) = blocking_audit_log w"
  "bedrock_requests (ensure_user_exists e uid tm ps w) = bedrock_requests w"
  "user_policies (ensure_user_exists e uid tm ps w) = user_policies w"
  "policy_calls (ensure_user_exists e uid tm ps w) = policy_calls w"
  "lambda_invocations (ensure_user_exists e uid tm ps w) = lambda_invocations w"
  "smtp_messages (ensure_user_exists e uid tm ps w) = smtp_messages w"
  by (simp_all add: ensure_user_exists_def split: option.splits)

lemma log_request_frame:
  "user_blocking_status (log_bedrock_request_cet e rd tm ps w) = user_blocking_status w"
  "blocking_audit_log (log_bedrock_request_cet e rd tm ps w) = blocking_audit_log w"
  "user_policies (log_bedrock_request_cet e rd tm ps w) = user_policies w"
  "policy_calls (log_bedrock_request_cet e rd tm ps w) = policy_calls w"
  "lambda_invocations (log_bedrock_request_cet e rd tm ps w) = lambda_invocations w"
  "smtp_messages (log_bedrock_request_cet e rd tm ps w) = smtp_messages w"
  by (simp_all add: log_bedrock_request_cet_def)

lemma check_blocked_unexpired:
  assumes "\<not> fails e DbSelectStatus" "map_of (user_blocking_status w) uid = Some r"
      "is_blocked r = ''Y''"
      "blocked_until r = None \<or>
       \<not> aware_ge (get_current_cet_time e) (localize e (the (blocked_until r)))"
  shows "check_user_blocking_status e uid w = ((True, blocked_reason r), w)"
  using assms by (auto simp: check_user_blocking_status_def split: option.splits)

lemma process_detail_blocked:
  assumes arn: "extract_user_from_arn (arn d) = Some uid"
      and sel: "\<not> fails e DbSelectStatus"
      and row: "map_of (user_blocking_status w) uid = Some r"
      and blk: "is_blocked r = ''Y''"
      and unexpired: "blocked_until r = None \<or>
           \<not> aware_ge (get_current_cet_time e) (localize e (the (blocked_until r)))"
      and rsn: "blocked_reason r \<noteq> Some ''expired''"
  shows "process_detail e d (c, w) = (c, w) \<or>
         process_detail e d (c, w) =
           (c, ensure_user_exists e uid (get_user_team e w uid) (get_user_person_tag e w uid) w)"
proof -
  let ?w1 = "ensure_user_exists e uid (get_user_team e w uid) (get_user_person_tag e w uid) w"
  have row1: "map_of (user_blocking_status ?w1) uid = Some r"
    using row by (simp add: ensure_user_exists_frame)
  have "check_user_blocking_status e uid ?w1 = ((True, blocked_reason r), ?w1)"
    using check_blocked_unexpired [OF sel row1 blk unexpired] .
  then show ?thesis
    using arn rsn by (simp add: process_detail_def Let_def)
qed

text \<open>
  C4 (corrected). For an account whose BlockRecord is blocked and not expired, a further
  automatic trigger has none of the effects of a block transition: the usage event is dropped
  before the usage is evaluated, so the BlockRecord table, the audit log, the policies, the
  policy calls, both notification channels and the usage rows stay as they were, and the
  handler answers with status 200 and zero counters. The answer carries no "already blocked"
  indicator. (Stated for a status query that succeeds and a stored reason other than the
  marker \<^verbatim>\<open>'expired'\<close>.) Nothing is said here about a manual request.
\<close>

theorem automatic_trigger_on_blocked_account:
  assumes arn: "extract_user_from_arn (arn d) = Some uid"
      and con: "\<not> fails e DbConnect"
      and sel: "\<not> fails e DbSelectStatus"
      and row: "map_of (user_blocking_status w) uid = Some r"
      and blk: "is_blocked r = ''Y''"
      and unexpired: "blocked_until r = None \<or>
           \<not> aware_ge (get_current_cet_time e) (localize e (the (blocked_until r)))"
      and rsn: "blocked_reason r \<noteq> Some ''expired''"
  shows "fst (handle_cloudtrail_event e (Some [d]) w) =
           \<lparr>statusCode = 200,
            body = SummaryBody \<lparr>processed_requests = 0, blocked_requests = 0,
                                unblocked_requests = 0\<rparr>\<rparr> \<and>
         user_blocking_status (snd (handle_cloudtrail_event e (Some [d]) w)) = user_blocking_status w \<and>
         blocking_audit_log (snd (handle_cloudtrail_event e (Some [d]) w)) = blocking_audit_log w \<and>
         bedrock_requests (snd (handle_cloudtrail_event e (Some [d]) w)) = bedrock_requests w \<and>
         user_policies (snd (handle_cloudtrail_event e (Some [d]) w)) = user_policies w \<and>
         policy_calls (snd (handle_cloudtrail_event e (Some [d]) w)) = policy_calls w \<and>
         lambda_invocations (snd (handle_cloudtrail_event e (Some [d]) w)) = lambda_invocations w \<and>
         smtp_messages (snd (handle_cloudtrail_event e (Some [d]) w)) = smtp_messages w"
proof -
  let ?c = "\<lparr>processed_requests = 0, blocked_requests = 0, unblocked_requests = 0\<rparr>"
  have h: "handle_cloudtrail_event e (Some [d]) w =
             (\<lparr>statusCode = 200, body = SummaryBody (fst (process_detail e d (?c, w)))\<rparr>,
              snd (process_detail e d (?c, w)))"
    using con by (simp add: handle_cloudtrail_event_def split_beta)
  from process_detail_blocked [OF arn sel row blk unexpired rsn, of ?c]
  show ?thesis
    unfolding h by (auto simp: ensure_user_exists_frame)
qed

text \<open>
  An instance: a usage event of the blocked \<^verbatim>\<open>u6\<close>.
\<close>

theorem automatic_trigger_on_blocked_account_witness:
  "extract_user_from_arn (arn (example_detail ''u6'')) = Some ''u6'' \<and>
   \<not> fails (example_env []) DbConnect \<and> \<not> fails (example_env []) DbSelectStatus \<and>
   map_of (user_blocking_status blocked_world) ''u6'' =
     Some (example_block (Some \<lparr>ordinal = 739267, hour = 0, minute = 0, second = 0,
                                 microsecond = 0\<rparr>)) \<and>
   \<not> aware_ge (get_current_cet_time (example_env []))
       (localize (example_env [])
          \<lparr>ordinal = 739267, hour = 0, minute = 0, second = 0, microsecond = 0\<rparr>) \<and>
   statusCode (fst (handle_cloudtrail_event (example_env []) (Some [example_detail ''u6''])
                      blocked_world)) = 200 \<and>
   user_blocking_status
     (snd (handle_cloudtrail_event (example_env []) (Some [example_detail ''u6'']) blocked_world)) =
     user_blocking_status blocked_world \<and>
   blocking_audit_log
     (snd (handle_cloudtrail_event (example_env []) (Some [example_detail ''u6'']) blocked_world)) = [] \<and>
   smtp_messages
     (snd (handle_cloudtrail_event (example_env []) (Some [example_detail ''u6'']) blocked_world)) = [] \<and>
   lambda_invocations
     (snd (handle_cloudtrail_event (example_env []) (Some [example_detail ''u6'']) blocked_world)) = []"
proof -
  have f: "\<not> fails (example_env []) DbConnect" "\<not> fails (example_env []) DbSelectStatus"
    by (simp_all add: example_env_fields)
  have u: "blocked_until (example_block (Some \<lparr>ordinal = 739267, hour = 0, minute = 0,
              second = 0, microsecond = 0\<rparr>)) = None \<or>
           \<not> aware_ge (get_current_cet_time (example_env []))
               (localize (example_env [])
                  (the (blocked_until (example_block (Some \<lparr>ordinal = 739267, hour = 0,
                     minute = 0, second = 0, microsecond = 0\<rparr>)))))"
    by (simp add: example_block_fields aware_ge_def utc_micros_def to_micros_def localize_def
        get_current_cet_time_def example_env_fields example_now_def)
  have r: "blocked_reason (example_block (Some \<lparr>ordinal = 739267, hour = 0, minute = 0,
              second = 0, microsecond = 0\<rparr>)) \<noteq> Some ''expired''"
    by (simp add: example_block_fields)
  from automatic_trigger_on_blocked_account [OF extract_u6 f blocked_world_facts(1)
      example_block_fields(1) u r]
  show ?thesis using f u
    by (simp add: extract_u6 blocked_world_facts example_block_fields)
qed

lemma iam_blocking_calls:
  "\<exists>rest. policy_calls (snd (implement_iam_blocking e uid w)) =
            policy_calls w @ GetUserPolicy uid # rest"
  by (simp add: implement_iam_blocking_def Let_def split: option.splits)

lemma enhanced_blocking_calls:
  "lambda_invocations (snd (send_enhanced_blocking_email e uid rsn u by_whom w)) =
     (if EMAIL_NOTIFICATIONS_ENABLED e then
        lambda_invocations w @
          [if by_whom \<noteq> ''system'' then SendAdminBlockingEmail uid by_whom rsn u
           else SendBlockingEmail uid u rsn]
      else lambda_invocations w)"
  by (simp add: send_enhanced_blocking_email_def Let_def blocking_gmail_frame)

lemma execute_admin_blocking_effects:
  assumes ok: "\<not> fails e DbUpsertAdminBlock" "\<not> fails e DbInsertAuditAdminBlock"
  shows "fst (execute_admin_blocking e uid rsn by_whom u expires w)"
    and "user_blocking_status (snd (execute_admin_blocking e uid rsn by_whom u expires w)) =
           upsert_block uid (Some rsn) (get_cet_timestamp_string e) (admin_blocked_until e expires)
             (daily_requests_used u) (user_blocking_status w)"
    and "blocking_audit_log (snd (execute_admin_blocking e uid rsn by_whom u expires w)) =
           blocking_audit_log w @
             [\<lparr>audit_user_id = uid, operation_type = ''BLOCK'', operation_reason = Some rsn,
               performed_by = by_whom, operation_timestamp = get_cet_timestamp_string e,
               daily_requests_at_operation = None, daily_limit_at_operation = None,
               iam_policy_updated = None, email_sent = None,
               audit_created_at = get_cet_timestamp_string e\<rparr>]"
    and "lambda_invocations (snd (execute_admin_blocking e uid rsn by_whom u expires w)) =
           (if EMAIL_NOTIFICATIONS_ENABLED e then
              lambda_invocations w @
                [if by_whom \<noteq> ''system'' then SendAdminBlockingEmail uid by_whom rsn u
                 else SendBlockingEmail uid u rsn]
            else lambda_invocations w)"
  using ok
  by (simp_all add: execute_admin_blocking_def Let_def split_beta enhanced_blocking_frame
      enhanced_blocking_calls iam_blocking_frame)

lemma execute_admin_blocking_policy_calls:
  assumes ok: "\<not> fails e DbUpsertAdminBlock" "\<not> fails e DbInsertAuditAdminBlock"
  shows "\<exists>rest. policy_calls (snd (execute_admin_blocking e uid rsn by_whom u expires w)) =
            policy_calls w @ GetUserPolicy uid # rest"
  using ok
  by (simp add: execute_admin_blocking_def Let_def split_beta enhanced_blocking_frame
      implement_iam_blocking_def split: option.splits)

lemma manual_block_user_effects:
  assumes ok: "\<not> fails e DbConnect" "\<not> fails e DbUpsertAdminBlock"
              "\<not> fails e DbInsertAuditAdminBlock"
  shows "fst (manual_block_user e uid ev w) =
           \<lparr>statusCode = 200,
            body = BlockBody (''User '' @ uid @ '' blocked successfully'') uid
                     (get_default (ev_performed_by ev) ''admin'') (get_cet_timestamp_string e)\<rparr>"
    and "snd (manual_block_user e uid ev w) =
           snd (execute_admin_blocking e uid (get_default (ev_reason ev) ''Manual admin block'')
                  (get_default (ev_performed_by ev) ''admin'') (get_user_current_usage e uid w)
                  (ev_expires_at ev) w)"
  using ok execute_admin_blocking_effects(1) [OF ok(2,3)]
  by (simp_all add: manual_block_user_def Let_def split_beta)

text \<open>
  The claim as stated fails for a manual request: blocking the blocked \<^verbatim>\<open>u6\<close> again
  rewrites the BlockRecord, appends an audit entry, calls IAM three times and invokes the
  e-mail service, and the answer is the plain success message.
\<close>

theorem repeated_block_counterexample:
  "map_option is_blocked (map_of (user_blocking_status blocked_world) ''u6'') = Some ''Y'' \<and>
   blocking_audit_log blocked_world = [] \<and> lambda_invocations blocked_world = [] \<and>
   policy_calls blocked_world = [] \<and>
   fst (handle_api_event (example_env []) (example_event ''block'' ''u6'' None) blocked_world) =
     \<lparr>statusCode = 200,
      body = BlockBody ''User u6 blocked successfully'' ''u6'' ''admin1''
               \<lparr>ordinal = 739266, hour = 23, minute = 59, second = 59, microsecond = 0\<rparr>\<rparr> \<and>
   map operation_type
     (blocking_audit_log
        (snd (handle_api_event (example_env []) (example_event ''block'' ''u6'' None) blocked_world)))
     = [''BLOCK''] \<and>
   lambda_invocations
     (snd (handle_api_event (example_env []) (example_event ''block'' ''u6'' None) blocked_world)) =
     [SendAdminBlockingEmail ''u6'' ''admin1'' ''policy review''
        \<lparr>daily_requests_used = 0, monthly_requests_used = 0, daily_limit = 3,
         monthly_limit = 5000, usage_administrative_safe = False\<rparr>] \<and>
   length (policy_calls
     (snd (handle_api_event (example_env []) (example_event ''block'' ''u6'' None) blocked_world)))
     = 3 \<and>
   map_option blocked_at
     (map_of (user_blocking_status
        (snd (handle_api_event (example_env []) (example_event ''block'' ''u6'' None) blocked_world)))
        ''u6'') =
     Some (Some \<lparr>ordinal = 739266, hour = 23, minute = 59, second = 59, microsecond = 0\<rparr>) \<and>
   map_option blocked_until
     (map_of (user_blocking_status
        (snd (handle_api_event (example_env []) (example_event ''block'' ''u6'' None) blocked_world)))
        ''u6'') =
     Some (Some \<lparr>ordinal = 739267, hour = 23, minute = 59, second = 59, microsecond = 0\<rparr>)"
proof -
  have f: "\<not> fails (example_env []) DbConnect" "\<not> fails (example_env []) DbUpsertAdminBlock"
          "\<not> fails (example_env []) DbInsertAuditAdminBlock"
    by (simp_all add: example_env_fields)
  have h: "handle_api_event (example_env []) (example_event ''block'' ''u6'' None) blocked_world =
             manual_block_user (example_env []) ''u6'' (example_event ''block'' ''u6'' None)
               blocked_world"
    by (simp add: handle_api_event_def example_event_fields)
  have ts: "get_cet_timestamp_string (example_env []) =
              \<lparr>ordinal = 739266, hour = 23, minute = 59, second = 59, microsecond = 0\<rparr>"
    by (simp add: get_cet_timestamp_string_def get_current_cet_time_def strftime_def
        example_env_fields example_now_def)
  have until: "admin_blocked_until (example_env []) None =
              Some \<lparr>ordinal = 739267, hour = 23, minute = 59, second = 59, microsecond = 0\<rparr>"
    by (simp add: admin_blocked_until_def get_current_cet_time_def strftime_def add_days_def
        example_env_fields example_now_def)
  have pc: "length (policy_calls (snd (execute_admin_blocking (example_env []) ''u6''
              ''policy review'' ''admin1'' (get_user_current_usage (example_env []) ''u6'' blocked_world)
              None blocked_world))) = 3"
    by (simp add: execute_admin_blocking_def Let_def split_beta enhanced_blocking_frame
        implement_iam_blocking_def example_env_fields blocked_world_facts)
  show ?thesis
    unfolding h
    using pc
    by (simp add: manual_block_user_effects [OF f] execute_admin_blocking_effects [OF f(2,3)]
        example_event_fields get_default_def usage_u6 ts until map_of_upsert_block
        blocked_world_facts example_block_def example_env_fields)
qed

subsection \<open>Invalid administrative requests\<close>





subsection \<open>No warning at 80 per cent\<close>

lemma check_not_blocked:
  assumes "map_of (user_blocking_status w) uid = None \<or>
           (\<exists>r. map_of (user_blocking_status w) uid = Some r \<and> is_blocked r \<noteq> ''Y'')"
  shows "check_user_blocking_status e uid w = ((False, None), w)"
  using assms by (auto simp: check_user_blocking_status_def)

lemma evaluation_ignores_other_faults:
  assumes "f DbSelectLimits = fails e DbSelectLimits" and "f DbSelectUsage = fails e DbSelectUsage"
  shows "check_user_limits_with_protection (e\<lparr>fails := f\<rparr>) uid w =
         check_user_limits_with_protection e uid w"
proof -
  have c: "count_daily (e\<lparr>fails := f\<rparr>) w uid = count_daily e w uid"
          "count_monthly (e\<lparr>fails := f\<rparr>) w uid = count_monthly e w uid"
    by (simp_all add: count_daily_def count_monthly_def)
  show ?thesis
    using assms
    by (simp add: check_user_limits_with_protection_def c Let_def split_beta
        split: option.splits)
qed

lemma process_detail_not_blocked:
  assumes arn: "extract_user_from_arn (arn d) = Some uid"
      and nb: "map_of (user_blocking_status w) uid = None \<or>
               (\<exists>r. map_of (user_blocking_status w) uid = Some r \<and> is_blocked r \<noteq> ''Y'')"
      and same: "blocked_requests (fst (process_detail e d (c, w))) = blocked_requests c"
  shows "lambda_invocations (snd (process_detail e d (c, w))) = lambda_invocations w \<and>
         smtp_messages (snd (process_detail e d (c, w))) = smtp_messages w"
proof -
  let ?tm = "get_user_team e w uid" and ?ps = "get_user_person_tag e w uid"
  let ?w1 = "ensure_user_exists e uid ?tm ?ps w"
  have nb1: "map_of (user_blocking_status ?w1) uid = None \<or>
             (\<exists>r. map_of (user_blocking_status ?w1) uid = Some r \<and> is_blocked r \<noteq> ''Y'')"
    using nb by (simp add: ensure_user_exists_frame)
  have chk: "check_user_blocking_status e uid ?w1 = ((False, None), ?w1)"
    using check_not_blocked [OF nb1] .
  show ?thesis
  proof (cases "?tm = ''unknown'' \<and> ?ps = ''Unknown''")
    case True
    then show ?thesis using arn by (simp add: process_detail_def)
  next
    case False
    show ?thesis
    proof (cases "parse_bedrock_event e d")
      case None
      then show ?thesis
        using arn False chk by (simp add: process_detail_def Let_def ensure_user_exists_frame)
    next
      case (Some rd)
      show ?thesis
      proof (cases "fst (check_user_limits_with_protection e uid ?w1)")
        case True
        then have "blocked_requests (fst (process_detail e d (c, w))) = blocked_requests c + 1"
          using arn False chk Some
          by (simp add: process_detail_def Let_def split_beta)
        with same show ?thesis by simp
      next
        case no_block: False
        then show ?thesis
          using arn False chk Some
          by (simp add: process_detail_def Let_def split_beta log_request_frame
              ensure_user_exists_frame)
      qed
    qed
  qed
qed

text \<open>
  C8 (corrected). The controller has no warning step. The values returned by
  \<^verbatim>\<open>check_user_limits_with_protection\<close> depend on no call site but its own two queries, so no
  notification outcome can change them. And while a usage event of an account that is not yet
  blocked is handled, no notification of any kind is sent unless the event triggers a block,
  whatever the usage level, 80 per cent of the daily limit and more included.
\<close>

theorem evaluation_sends_no_warning:
  "(f DbSelectLimits = fails e DbSelectLimits \<and> f DbSelectUsage = fails e DbSelectUsage \<longrightarrow>
      check_user_limits_with_protection (e\<lparr>fails := f\<rparr>) uid w =
      check_user_limits_with_protection e uid w) \<and>
   (extract_user_from_arn (arn d) = Some uid \<and>
    (map_of (user_blocking_status w) uid = None \<or>
     (\<exists>r. map_of (user_blocking_status w) uid = Some r \<and> is_blocked r \<noteq> ''Y'')) \<and>
    blocked_requests (fst (process_detail e d (c, w))) = blocked_requests c \<longrightarrow>
      lambda_invocations (snd (process_detail e d (c, w))) = lambda_invocations w \<and>
      smtp_messages (snd (process_detail e d (c, w))) = smtp_messages w)"
proof (intro conjI impI)
  assume "f DbSelectLimits = fails e DbSelectLimits \<and> f DbSelectUsage = fails e DbSelectUsage"
  then show "check_user_limits_with_protection (e\<lparr>fails := f\<rparr>) uid w =
             check_user_limits_with_protection e uid w"
    by (simp add: evaluation_ignores_other_faults)
next
  assume h: "extract_user_from_arn (arn d) = Some uid \<and>
    (map_of (user_blocking_status w) uid = None \<or>
     (\<exists>r. map_of (user_blocking_status w) uid = Some r \<and> is_blocked r \<noteq> ''Y'')) \<and>
    blocked_requests (fst (process_detail e d (c, w))) = blocked_requests c"
  from h have a: "extract_user_from_arn (arn d) = Some uid" by (rule conjunct1)
  from h have b: "map_of (user_blocking_status w) uid = None \<or>
     (\<exists>r. map_of (user_blocking_status w) uid = Some r \<and> is_blocked r \<noteq> ''Y'')"
    by (rule conjunct2 [THEN conjunct1])
  from h have c: "blocked_requests (fst (process_detail e d (c, w))) = blocked_requests c"
    by (rule conjunct2 [THEN conjunct2])
  from process_detail_not_blocked [OF a b c]
  show "lambda_invocations (snd (process_detail e d (c, w))) = lambda_invocations w"
    by (rule conjunct1)
  from process_detail_not_blocked [OF a b c]
  show "smtp_messages (snd (process_detail e d (c, w))) = smtp_messages w"
    by (rule conjunct2)
qed

text \<open>
  An instance: four requests against a daily limit of five.
\<close>

theorem evaluation_sends_no_warning_witness:
  "(fails (example_env [EmailLambdaInvoke, SmtpSend]) DbSelectLimits =
      fails (example_env []) DbSelectLimits \<and>
    fails (example_env [EmailLambdaInvoke, SmtpSend]) DbSelectUsage =
      fails (example_env []) DbSelectUsage) \<and>
   check_user_limits_with_protection
     ((example_env [])\<lparr>fails := fails (example_env [EmailLambdaInvoke, SmtpSend])\<rparr>) ''u1''
     tagged_world =
     (False, None,
      Some \<lparr>daily_requests_used = 4, monthly_requests_used = 4, daily_limit = 5,
            monthly_limit = 5000, usage_administrative_safe = False\<rparr>) \<and>
   (extract_user_from_arn (arn (example_detail ''u1'')) = Some ''u1'' \<and>
    map_of (user_blocking_status tagged_world) ''u1'' = None \<and>
    blocked_requests
      (fst (process_detail (example_env []) (example_detail ''u1'') (zero_counters, tagged_world))) =
      blocked_requests zero_counters) \<and>
   lambda_invocations
     (snd (process_detail (example_env []) (example_detail ''u1'') (zero_counters, tagged_world))) =
     lambda_invocations tagged_world \<and>
   smtp_messages
     (snd (process_detail (example_env []) (example_detail ''u1'') (zero_counters, tagged_world))) =
     smtp_messages tagged_world"
proof -
  have a: "fails (example_env [EmailLambdaInvoke, SmtpSend]) DbSelectLimits =
             fails (example_env []) DbSelectLimits \<and>
           fails (example_env [EmailLambdaInvoke, SmtpSend]) DbSelectUsage =
             fails (example_env []) DbSelectUsage"
    by (simp add: example_env_fields)
  have b: "extract_user_from_arn (arn (example_detail ''u1'')) = Some ''u1'' \<and>
           (map_of (user_blocking_status tagged_world) ''u1'' = None \<or>
            (\<exists>r. map_of (user_blocking_status tagged_world) ''u1'' = Some r \<and>
                 is_blocked r \<noteq> ''Y'')) \<and>
           blocked_requests
             (fst (process_detail (example_env []) (example_detail ''u1'')
                     (zero_counters, tagged_world))) = blocked_requests zero_counters"
    by (simp add: extract_example_user tagged_world_fields tagged_u1_processed)
  from evaluation_sends_no_warning [of "fails (example_env [EmailLambdaInvoke, SmtpSend])"
      "example_env []" "''u1''" tagged_world "example_detail ''u1''" zero_counters] a b
  show ?thesis
    by (simp add: tagged_u1_steps tagged_world_fields extract_example_user)
qed

text \<open>
  The claim as stated fails at 80 per cent: the account is not blocked, the evaluation says
  "do not block", the event is recorded, and neither notification channel has been used.
\<close>

theorem warning_at_80_percent_counterexample:
  "map_of (user_blocking_status tagged_world) ''u1'' = None \<and>
   check_user_limits_with_protection (example_env []) ''u1'' tagged_world =
     (False, None,
      Some \<lparr>daily_requests_used = 4, monthly_requests_used = 4, daily_limit = 5,
            monthly_limit = 5000, usage_administrative_safe = False\<rparr>) \<and>
   (80::int) * 5 \<le> 100 * 4 \<and>
   lambda_invocations tagged_world = [] \<and> smtp_messages tagged_world = [] \<and>
   processed_requests
     (fst (process_detail (example_env []) (example_detail ''u1'') (zero_counters, tagged_world)))
     = 1 \<and>
   lambda_invocations
     (snd (process_detail (example_env []) (example_detail ''u1'') (zero_counters, tagged_world)))
     = [] \<and>
   smtp_messages
     (snd (process_detail (example_env []) (example_detail ''u1'') (zero_counters, tagged_world)))
     = []"
  by (simp add: tagged_world_fields tagged_u1_steps tagged_u1_processed log_request_frame)

end
